theory Spec2Isabelle
  imports Complex_Main "HOL-Library.Sublist"
begin

section \<open>Data model\<close>

text \<open>
  The program is one Python module, \<^verbatim>\<open>main.py\<close>: a reader \<^verbatim>\<open>read_csv_data\<close> and two
  Dash callbacks, \<^verbatim>\<open>update_dropdown\<close> and \<^verbatim>\<open>update_graph\<close>. The callbacks run on a timer;
  the browser hands back what the previous run returned (figure, last data update, view
  state) together with the latest interaction payload.

  Exceptions are values: a function that can raise returns \<open>exn + 'a\<close>.
\<close>

datatype exn = KeyError string | IndexError | TypeError | ValueError | ParserError string

text \<open>
  A pandas column has one dtype. Numeric columns (int64, float64) are \<open>Floats\<close>, text
  columns are \<open>Objects\<close>, converted time columns are \<open>Datetimes\<close> (nanoseconds); \<open>None\<close>
  is the missing value (NaN, NaT). A float is the real number it stands for; infinite
  floats are not modelled.
\<close>

datatype series =
    Floats "real option list"
  | Objects "string option list"
  | Datetimes "int option list"

text \<open>A data frame: the columns in file order, each with its name.\<close>

type_synonym dataframe = "(string \<times> series) list"

fun len :: "series \<Rightarrow> nat" where
  "len (Floats xs) = length xs"
| "len (Objects xs) = length xs"
| "len (Datetimes xs) = length xs"

text \<open>\<^verbatim>\<open>s.isna()\<close>, one flag per entry.\<close>

fun isna :: "series \<Rightarrow> bool list" where
  "isna (Floats xs) = map (\<lambda>v. v = None) xs"
| "isna (Objects xs) = map (\<lambda>v. v = None) xs"
| "isna (Datetimes xs) = map (\<lambda>v. v = None) xs"

text \<open>\<^verbatim>\<open>df.columns\<close>, \<^verbatim>\<open>len(df)\<close> and \<^verbatim>\<open>df[c]\<close> (a missing column raises).\<close>

definition columns :: "dataframe \<Rightarrow> string list" where
  "columns df = map fst df"

definition nrows :: "dataframe \<Rightarrow> nat" where
  "nrows df = (case df of [] \<Rightarrow> 0 | (c, s) # rest \<Rightarrow> len s)"

definition getitem :: "dataframe \<Rightarrow> string \<Rightarrow> exn + series" where
  "getitem df c = (case map_of df c of None \<Rightarrow> Inl (KeyError c) | Some s \<Rightarrow> Inr s)"

text \<open>\<^verbatim>\<open>df[c] = s\<close> for a column that exists: the column keeps its place.\<close>

definition setitem :: "dataframe \<Rightarrow> string \<Rightarrow> series \<Rightarrow> dataframe" where
  "setitem df c s = map (\<lambda>(n, old). if n = c then (n, s) else (n, old)) df"

text \<open>Every column of a data frame has one entry per row.\<close>

definition wf_df :: "dataframe \<Rightarrow> bool" where
  "wf_df df = list_all (\<lambda>(c, s). len s = nrows df) df"

text \<open>
  The file system as the program sees it: a path has no file, or a file with its
  modification time and its content. The CSV parser is outside the program, so the content
  is given by what \<^verbatim>\<open>pd.read_csv\<close> makes of it: a data frame, or the exception it raises.
\<close>

record csv_file =
  mtime :: real
  parsed :: "exn + dataframe"

type_synonym filesystem = "string \<Rightarrow> csv_file option"

text \<open>
  The arithmetic of a column's values is the library's and the machine's, float64 with
  its rounding for numbers, whole nanoseconds for timestamps: \<^verbatim>\<open>Series.quantile\<close> on
  the values that are not missing (at least one), and the difference, product and sum of
  lines 241 to 243. It is a parameter, so that nothing proved depends on how it rounds.
\<close>

record arith =
  fl_quantile :: "real list \<Rightarrow> real \<Rightarrow> real"
  fl_sub :: "real \<Rightarrow> real \<Rightarrow> real"
  fl_mul :: "real \<Rightarrow> real \<Rightarrow> real"
  fl_add :: "real \<Rightarrow> real \<Rightarrow> real"

text \<open>
  \<^verbatim>\<open>pd.to_datetime\<close> is a library function too, taken as a parameter: once with the format
  inferred and once with the format \<^verbatim>\<open>%m/%d/%Y %H:%M:%S\<close>, both with \<^verbatim>\<open>errors='coerce'\<close>.
  It raises, or gives the timestamp (or NaT) at each position of the column.
\<close>

record pandas =
  to_datetime :: "series \<Rightarrow> exn + (nat \<Rightarrow> int option)"
  to_datetime_format :: "series \<Rightarrow> exn + (nat \<Rightarrow> int option)"
  float64 :: arith
  datetime64 :: arith

definition converted :: "series \<Rightarrow> (nat \<Rightarrow> int option) \<Rightarrow> series" where
  "converted s f = Datetimes (map f [0..<len s])"

text \<open>
  What a run does besides returning: it prints a line, it prints \<^verbatim>\<open>Error reading CSV:\<close> with
  an exception and its traceback, it enters the reader, it classifies a column.
\<close>

datatype event = Printed string | PrintedError exn | SourceRead string | Classify string

record metadata =
  time_col :: string
  ph_cols :: "string list"

section \<open>The reader: \<^verbatim>\<open>read_csv_data\<close>\<close>

text \<open>\<^verbatim>\<open>str.lower\<close> on ASCII, and \<^verbatim>\<open>a in b\<close> on strings (\<^const>\<open>sublist\<close>).\<close>

definition lower_char :: "char \<Rightarrow> char" where
  "lower_char c =
     (let n = (of_char c :: nat) in if 65 \<le> n \<and> n \<le> 90 then char_of (n + 32) else c)"

definition lower :: "string \<Rightarrow> string" where
  "lower s = map lower_char s"

text \<open>
  Lines 24 to 39: the time column. \<^verbatim>\<open>pc_time\<close> is converted if it is there; else
  \<^verbatim>\<open>ph_time\<close>, with the inferred format and, if that raises, with the explicit one; else the
  name \<^verbatim>\<open>samp_num\<close> is taken without a look at the columns.
\<close>

definition handle_time_columns :: "pandas \<Rightarrow> dataframe \<Rightarrow> exn + (dataframe \<times> string)" where
  "handle_time_columns pd df =
     (if ''pc_time'' \<in> set (columns df) then
        (case getitem df ''pc_time'' of
           Inl e \<Rightarrow> Inl e
         | Inr s \<Rightarrow>
            (case to_datetime pd s of
               Inl e \<Rightarrow> Inl e
             | Inr f \<Rightarrow> Inr (setitem df ''pc_time'' (converted s f), ''pc_time'')))
      else if ''ph_time'' \<in> set (columns df) then
        (case getitem df ''ph_time'' of
           Inl e \<Rightarrow> Inl e
         | Inr s \<Rightarrow>
            (case to_datetime pd s of
               Inr f \<Rightarrow> Inr (setitem df ''ph_time'' (converted s f), ''ph_time'')
             | Inl _ \<Rightarrow>
                (case to_datetime_format pd s of
                   Inl e \<Rightarrow> Inl e
                 | Inr f \<Rightarrow> Inr (setitem df ''ph_time'' (converted s f), ''ph_time''))))
      else Inr (df, ''samp_num''))"

text \<open>
  Lines 41 to 44: a column named like a time whose every value is missing gives way to
  \<^verbatim>\<open>samp_num\<close>, or to the first column where there is no \<^verbatim>\<open>samp_num\<close>.
\<close>

definition invalid_time_warning :: "string \<Rightarrow> event" where
  "invalid_time_warning tc =
     Printed (''Warning: Time column '' @ [CHR 0x27] @ tc @ [CHR 0x27] @
              '' contains invalid datetime data. Using sample number as fallback.'')"

definition verify_time_column :: "dataframe \<Rightarrow> string \<Rightarrow> exn + (event list \<times> string)" where
  "verify_time_column df tc =
     (if sublist ''time'' (lower tc) then
        (case getitem df tc of
           Inl e \<Rightarrow> Inl e
         | Inr s \<Rightarrow>
            if list_all id (isna s) then
              (if ''samp_num'' \<in> set (columns df) then Inr ([invalid_time_warning tc], ''samp_num'')
               else (case columns df of
                       [] \<Rightarrow> Inl IndexError
                     | c # cs \<Rightarrow> Inr ([invalid_time_warning tc], c)))
            else Inr ([], tc))
      else Inr ([], tc))"

text \<open>Lines 46 to 55: the pH columns, the two known names first, else by name pattern.\<close>

definition identify_ph_cols :: "dataframe \<Rightarrow> string list" where
  "identify_ph_cols df =
     (let known = (if ''pH_free'' \<in> set (columns df) then [''pH_free''] else []) @
                  (if ''ph_total'' \<in> set (columns df) then [''ph_total''] else [])
      in if known = [] then
           filter (\<lambda>c. (sublist ''ph'' (lower c) \<or> sublist ''pH'' c) \<and> \<not> sublist ''time'' (lower c))
             (columns df)
         else known)"

text \<open>The body of the \<^verbatim>\<open>try\<close> block, lines 21 to 61.\<close>

definition read_body :: "pandas \<Rightarrow> csv_file \<Rightarrow> exn + (event list \<times> (dataframe \<times> metadata) option)" where
  "read_body pd f =
     (case parsed f of
        Inl e \<Rightarrow> Inl e
      | Inr df0 \<Rightarrow>
         (case handle_time_columns pd df0 of
            Inl e \<Rightarrow> Inl e
          | Inr (df, tc0) \<Rightarrow>
             (case verify_time_column df tc0 of
                Inl e \<Rightarrow> Inl e
              | Inr (evs, tc) \<Rightarrow>
                 (let cols = identify_ph_cols df in
                  if cols = [] then
                    Inr (evs @ [Printed ''No pH columns found in the CSV file.''], None)
                  else Inr (evs, Some (df, \<lparr>time_col = tc, ph_cols = cols\<rparr>))))))"

text \<open>
  The reader. A missing file and every exception of the body give \<open>None\<close> (the pair
  \<^verbatim>\<open>None, None\<close>); the reader itself never raises.
\<close>

definition read_csv_data ::
  "pandas \<Rightarrow> filesystem \<Rightarrow> string \<Rightarrow> event list \<times> (dataframe \<times> metadata) option" where
  "read_csv_data pd fs file_path =
     (case fs file_path of
        None \<Rightarrow>
          ([SourceRead file_path,
            Printed (''Warning: File '' @ file_path @
                     '' does not exist yet. Waiting for it to be created...'')],
           None)
      | Some f \<Rightarrow>
         (case read_body pd f of
            Inl e \<Rightarrow> ([SourceRead file_path, PrintedError e], None)
          | Inr (evs, r) \<Rightarrow> (SourceRead file_path # evs, r)))"

section \<open>The dropdown callback: \<^verbatim>\<open>update_dropdown\<close>\<close>

definition FILE_PATH :: string where
  "FILE_PATH = ''../locness-ph/pH_data.csv''"

text \<open>The module's global variables (lines 114 to 116); an option is a label and a value.\<close>

record globals =
  last_modified_time :: "real option"
  dropdown_options :: "(string \<times> string) list"
  dropdown_value :: "string option"

text \<open>Lines 142 to 151: the value of the dropdown after a read.\<close>

definition default_value :: "string list \<Rightarrow> exn + string" where
  "default_value cols =
     (if ''ph_total'' \<in> set cols then Inr ''ph_total''
      else if ''pH_free'' \<in> set cols then Inr ''pH_free''
      else (case cols of [] \<Rightarrow> Inl IndexError | c # cs \<Rightarrow> Inr c))"

definition choose_value :: "string option \<Rightarrow> string list \<Rightarrow> exn + string" where
  "choose_value current_value cols =
     (case current_value of
        None \<Rightarrow> default_value cols
      | Some v \<Rightarrow> if v \<notin> set cols then default_value cols else Inr v)"

text \<open>Python's \<^verbatim>\<open>a or b\<close> on optional strings: \<open>None\<close> and the empty string are false.\<close>

definition py_or :: "string option \<Rightarrow> string option \<Rightarrow> string option" where
  "py_or a b = (if a = None \<or> a = Some [] then b else a)"

definition update_dropdown ::
  "pandas \<Rightarrow> filesystem \<Rightarrow> nat \<Rightarrow> string option \<Rightarrow> globals \<Rightarrow>
     event list \<times> (exn + (((string \<times> string) list \<times> string option) \<times> globals))" where
  "update_dropdown pd fs n current_value g =
     (case fs FILE_PATH of
        None \<Rightarrow> ([], Inr (([], None), g))
      | Some f \<Rightarrow>
         (let current_modified_time = mtime f;
              file_modified = (last_modified_time g \<noteq> Some current_modified_time);
              cached = ([], Inr ((dropdown_options g, py_or (dropdown_value g) current_value), g))
          in if file_modified \<or> dropdown_options g = [] then
               (case read_csv_data pd fs FILE_PATH of
                  (evs, None) \<Rightarrow> (evs, snd cached)
                | (evs, Some (df, md)) \<Rightarrow>
                   (let new_options = map (\<lambda>c. (c, c)) (ph_cols md) in
                    case choose_value current_value (ph_cols md) of
                      Inl e \<Rightarrow> (evs, Inl e)
                    | Inr new_value \<Rightarrow>
                       (evs, Inr ((new_options, Some new_value),
                                  \<lparr>last_modified_time = Some current_modified_time,
                                   dropdown_options = new_options,
                                   dropdown_value = Some new_value\<rparr>))))
             else cached))"

section \<open>The graph callback: \<^verbatim>\<open>update_graph\<close>\<close>

text \<open>JSON values of the interaction payload; a dict is a list of pairs with distinct keys.\<close>

datatype jval = JNull | JBool bool | JNum real | JStr string | JList "jval list"

type_synonym view = "(string \<times> jval) list"

text \<open>The stored fingerprint, \<^verbatim>\<open>{'mtime': ..., 'ph_type': ...}\<close>.\<close>

record data_update =
  du_mtime :: real
  du_ph_type :: "string option"

text \<open>
  The figure: its traces and its layout. Of the layout, the title and the axes are kept
  (an axis the layout does not have is \<open>None\<close>); marker and line styles, legend, margins,
  hover mode and transition are fixed decorations and are left out.
\<close>

record axis =
  axis_title :: "string option"
  axis_range :: "(jval \<times> jval) option"
  tickformat :: "string option"
  tickangle :: "int option"

record trace =
  tr_x :: series
  tr_y :: series
  tr_mode :: string
  tr_name :: string
  tr_secondary_y :: bool

record layout =
  title :: "string option"
  xaxis :: "axis option"
  yaxis :: "axis option"
  yaxis2 :: "axis option"

record figure =
  fig_data :: "trace list"
  fig_layout :: layout

definition empty_axis :: axis where
  "empty_axis = \<lparr>axis_title = None, axis_range = None, tickformat = None, tickangle = None\<rparr>"

text \<open>\<^verbatim>\<open>go.Figure()\<close> with a title, and \<^verbatim>\<open>make_subplots\<close> with a secondary y axis.\<close>

definition titled_figure :: "string \<Rightarrow> figure" where
  "titled_figure t =
     \<lparr>fig_data = [], fig_layout = \<lparr>title = Some t, xaxis = None, yaxis = None, yaxis2 = None\<rparr>\<rparr>"

definition make_subplots :: figure where
  "make_subplots =
     \<lparr>fig_data = [],
      fig_layout = \<lparr>title = None, xaxis = Some empty_axis, yaxis = Some empty_axis,
                    yaxis2 = Some empty_axis\<rparr>\<rparr>"

text \<open>Lines 193 to 203: the current view, from the payload or else from the stored view.\<close>

definition view_keys :: "string list" where
  "view_keys = [''xaxis.range'', ''xaxis.autorange'', ''yaxis.range'', ''yaxis.autorange'',
                ''xaxis.type'', ''yaxis.type'', ''autosize'']"

definition capture_view :: "view option \<Rightarrow> view option \<Rightarrow> view" where
  "capture_view relay_data stored_view_state =
     (case relay_data of
        Some (kv # kvs) \<Rightarrow>
          filter (\<lambda>(key, v). list_ex (\<lambda>vk. sublist vk key) view_keys) (kv # kvs)
      | _ \<Rightarrow> (case stored_view_state of Some (kv # kvs) \<Rightarrow> kv # kvs | _ \<Rightarrow> []))"

text \<open>The pair stored under \<^verbatim>\<open>k[0]\<close> and \<^verbatim>\<open>k[1]\<close>, if both keys are there.\<close>

definition range_of :: "view \<Rightarrow> string \<Rightarrow> (jval \<times> jval) option" where
  "range_of cv k =
     (case (map_of cv (k @ ''[0]''), map_of cv (k @ ''[1]'')) of
        (Some lo, Some hi) \<Rightarrow> Some (lo, hi)
      | _ \<Rightarrow> None)"

text \<open>
  Lines 208 to 218: the view on the figure the browser holds. Writing into an axis the
  layout does not have raises \<^verbatim>\<open>KeyError\<close>.
\<close>

definition set_cached_range ::
  "(layout \<Rightarrow> axis option) \<Rightarrow> (axis option \<Rightarrow> layout \<Rightarrow> layout) \<Rightarrow> string \<Rightarrow>
     (jval \<times> jval) option \<Rightarrow> figure \<Rightarrow> exn + figure" where
  "set_cached_range get put k r fig =
     (case r of
        None \<Rightarrow> Inr fig
      | Some pair \<Rightarrow>
         (case get (fig_layout fig) of
            None \<Rightarrow> Inl (KeyError k)
          | Some a \<Rightarrow>
             Inr (fig\<lparr>fig_layout := put (Some (a\<lparr>axis_range := Some pair\<rparr>)) (fig_layout fig)\<rparr>)))"

definition apply_view_cached :: "figure \<Rightarrow> view \<Rightarrow> exn + figure" where
  "apply_view_cached fig cv =
     (if cv \<noteq> [] then
        (case set_cached_range xaxis (\<lambda>a l. l\<lparr>xaxis := a\<rparr>) ''xaxis'' (range_of cv ''xaxis.range'') fig of
           Inl e \<Rightarrow> Inl e
         | Inr fig' \<Rightarrow>
            set_cached_range yaxis (\<lambda>a l. l\<lparr>yaxis := a\<rparr>) ''yaxis'' (range_of cv ''yaxis.range'') fig')
      else Inr fig)"

text \<open>Sequencing of steps that can raise: the first exception ends the run.\<close>

fun and_then :: "exn + 'a \<Rightarrow> ('a \<Rightarrow> exn + 'b) \<Rightarrow> exn + 'b" where
  "and_then (Inl e) f = Inl e"
| "and_then (Inr x) f = f x"

text \<open>
  Lines 239 to 243. The values of the selected column: on text the quantile raises, a
  timestamp column is computed with like a column of numbers, in its own arithmetic.
  \<^verbatim>\<open>Series.quantile\<close> skips missing values; without a value it gives NaN.
\<close>

fun numeric :: "series \<Rightarrow> exn + real option list" where
  "numeric (Floats xs) = Inr xs"
| "numeric (Datetimes ts) = Inr (map (map_option real_of_int) ts)"
| "numeric (Objects ss) =
     (if list_all (\<lambda>v. v = None) ss then Inr (map (\<lambda>v. None) ss) else Inl TypeError)"

fun arith_of :: "pandas \<Rightarrow> series \<Rightarrow> arith" where
  "arith_of pd (Datetimes ts) = datetime64 pd"
| "arith_of pd s = float64 pd"

definition quantile :: "arith \<Rightarrow> real option list \<Rightarrow> real \<Rightarrow> real option" where
  "quantile ar vs q =
     (let xs = List.map_filter id vs in if xs = [] then None else Some (fl_quantile ar xs q))"

text \<open>Arithmetic with NaN: a missing operand gives a missing result.\<close>

definition nan_lift :: "(real \<Rightarrow> real \<Rightarrow> real) \<Rightarrow> real option \<Rightarrow> real option \<Rightarrow> real option" where
  "nan_lift f a b = (case (a, b) of (Some x, Some y) \<Rightarrow> Some (f x y) | _ \<Rightarrow> None)"

definition fence :: "arith \<Rightarrow> real option list \<Rightarrow> real option \<times> real option" where
  "fence ar vs =
     (let q1 = quantile ar vs 0.25;
          q3 = quantile ar vs 0.75;
          iqr = nan_lift (fl_sub ar) q3 q1;
          lower_bound = nan_lift (fl_sub ar) q1 (nan_lift (fl_mul ar) (Some 1.5) iqr);
          upper_bound = nan_lift (fl_add ar) q3 (nan_lift (fl_mul ar) (Some 1.5) iqr)
      in (lower_bound, upper_bound))"

text \<open>Line 246: a comparison with NaN on either side is false.\<close>

definition in_fence :: "real option \<times> real option \<Rightarrow> real option \<Rightarrow> bool" where
  "in_fence bounds v =
     (case (v, bounds) of (Some x, Some l, Some u) \<Rightarrow> l \<le> x \<and> x \<le> u | _ \<Rightarrow> False)"

text \<open>Lines 246 to 250: the mask of the normal rows; too few of them, and every row is normal.\<close>

definition normal_mask :: "pandas \<Rightarrow> dataframe \<Rightarrow> series \<Rightarrow> exn + bool list" where
  "normal_mask pd df s =
     and_then (numeric s) (\<lambda>vs.
       let msk = map (in_fence (fence (arith_of pd s) vs)) vs
       in Inr (if length (filter id msk) < 5 then replicate (nrows df) True else msk))"

text \<open>Lines 253 and 254: \<^verbatim>\<open>df[mask]\<close> keeps, in every column, the rows the mask marks.\<close>

definition pick :: "bool list \<Rightarrow> 'a list \<Rightarrow> 'a list" where
  "pick m xs = map snd (filter fst (zip m xs))"

fun select :: "bool list \<Rightarrow> series \<Rightarrow> series" where
  "select m (Floats xs) = Floats (pick m xs)"
| "select m (Objects xs) = Objects (pick m xs)"
| "select m (Datetimes xs) = Datetimes (pick m xs)"

definition boolean_index :: "dataframe \<Rightarrow> bool list \<Rightarrow> dataframe" where
  "boolean_index df m = map (\<lambda>(c, s). (c, select m s)) df"

definition scatter :: "series \<Rightarrow> series \<Rightarrow> string \<Rightarrow> string \<Rightarrow> bool \<Rightarrow> trace" where
  "scatter x y m n sec = \<lparr>tr_x = x, tr_y = y, tr_mode = m, tr_name = n, tr_secondary_y = sec\<rparr>"

fun is_datetime :: "series \<Rightarrow> bool" where
  "is_datetime (Datetimes ts) = True"
| "is_datetime s = False"

text \<open>Lines 239 to 254: the normal rows and the outliers of the selected column.\<close>

definition classify :: "pandas \<Rightarrow> dataframe \<Rightarrow> string \<Rightarrow> exn + (dataframe \<times> dataframe)" where
  "classify pd df sel =
     and_then (getitem df sel) (\<lambda>ys.
     and_then (normal_mask pd df ys) (\<lambda>msk.
       Inr (boolean_index df msk, boolean_index df (map Not msk))))"

text \<open>
  Lines 256 to 294: the traces, in the order the source evaluates them. Without a
  \<^verbatim>\<open>samp_num\<close> column the last trace is given \<^verbatim>\<open>range(len(df))\<close>, which \<^verbatim>\<open>go.Scatter\<close>
  refuses with \<^verbatim>\<open>ValueError\<close>.
\<close>

definition data_traces ::
  "dataframe \<Rightarrow> string \<Rightarrow> string \<Rightarrow> dataframe \<Rightarrow> dataframe \<Rightarrow> exn + trace list" where
  "data_traces df tc sel df_normal df_outliers =
     and_then (getitem df_normal tc) (\<lambda>xn.
     and_then (getitem df_normal sel) (\<lambda>yn.
     and_then (if nrows df_outliers \<noteq> 0 then
                 and_then (getitem df_outliers tc) (\<lambda>xo.
                 and_then (getitem df_outliers sel) (\<lambda>yo.
                   Inr [scatter xo yo ''markers'' ''Outliers'' False]))
               else Inr []) (\<lambda>outl.
     and_then (getitem df tc) (\<lambda>xa.
     and_then (if ''samp_num'' \<in> set (columns df) then getitem df ''samp_num''
               else Inl ValueError) (\<lambda>ya.
       Inr ([scatter xn yn ''lines+markers'' sel False] @ outl @
            [scatter xa ya ''lines'' ''Sample Number'' True]))))))"

text \<open>Lines 296 to 337: axes, the view, the titles.\<close>

definition format_xaxis :: "string \<Rightarrow> bool \<Rightarrow> axis \<Rightarrow> axis" where
  "format_xaxis tc dt a =
     (if dt then a\<lparr>axis_title := Some tc, tickformat := Some ''%Y-%m-%d %H:%M:%S'', tickangle := Some 45\<rparr>
      else a\<lparr>axis_title := Some tc\<rparr>)"

definition view_range :: "view \<Rightarrow> string \<Rightarrow> axis \<Rightarrow> axis" where
  "view_range cv k a =
     (if cv \<noteq> [] then
        (case range_of cv k of None \<Rightarrow> a | Some pair \<Rightarrow> a\<lparr>axis_range := Some pair\<rparr>)
      else a)"

definition data_layout :: "string \<Rightarrow> bool \<Rightarrow> string \<Rightarrow> view \<Rightarrow> layout \<Rightarrow> layout" where
  "data_layout tc dt sel cv l =
     l\<lparr>title := Some (sel @ '' vs '' @ tc),
       xaxis := map_option (view_range cv ''xaxis.range'' \<circ> format_xaxis tc dt) (xaxis l),
       yaxis := map_option ((\<lambda>a. a\<lparr>axis_title := Some sel\<rparr>) \<circ> view_range cv ''yaxis.range'') (yaxis l),
       yaxis2 := map_option (\<lambda>a. a\<lparr>axis_title := Some ''Sample Number''\<rparr>) (yaxis2 l)\<rparr>"

text \<open>Lines 237 to 337, the branch of a selected column that the data frame has.\<close>

definition data_chart ::
  "pandas \<Rightarrow> dataframe \<Rightarrow> string \<Rightarrow> string \<Rightarrow> view \<Rightarrow> exn + figure" where
  "data_chart pd df tc sel cv =
     and_then (classify pd df sel) (\<lambda>(df_normal, df_outliers).
     and_then (data_traces df tc sel df_normal df_outliers) (\<lambda>traces.
     and_then (getitem df tc) (\<lambda>xa.
       Inr \<lparr>fig_data = traces,
            fig_layout = data_layout tc (is_datetime xa) sel cv (fig_layout make_subplots)\<rparr>)))"

text \<open>Lines 339 to 343: the selected column is not a column of the data frame.\<close>

definition py_str :: "string option \<Rightarrow> string" where
  "py_str v = (case v of None \<Rightarrow> ''None'' | Some s \<Rightarrow> s)"

definition not_found_chart :: "string option \<Rightarrow> figure" where
  "not_found_chart sel =
     make_subplots\<lparr>fig_layout :=
       (fig_layout make_subplots)
         \<lparr>title := Some (''Error: Selected column '' @ [CHR 0x27] @ py_str sel @ [CHR 0x27] @ '' not found''),
          xaxis := Some (empty_axis\<lparr>axis_title := Some ''Time''\<rparr>),
          yaxis := Some (empty_axis\<lparr>axis_title := Some ''pH''\<rparr>)\<rparr>\<rparr>"

text \<open>Lines 233 to 343: the figure of a successful read, with the events of building it.\<close>

definition build_figure ::
  "pandas \<Rightarrow> dataframe \<Rightarrow> string \<Rightarrow> string option \<Rightarrow> view \<Rightarrow> event list \<times> (exn + figure)" where
  "build_figure pd df tc selected_ph_type cv =
     (case selected_ph_type of
        None \<Rightarrow> ([], Inr (not_found_chart selected_ph_type))
      | Some sel \<Rightarrow>
          if sel \<in> set (columns df) then ([Classify sel], data_chart pd df tc sel cv)
          else ([], Inr (not_found_chart selected_ph_type)))"

text \<open>
  The callback. Its arguments are the tick counter, the selected column, and what the
  browser holds: the figure, the interaction payload, the stored view and the stored
  fingerprint. \<open>now\<close> is the formatted clock time. It returns the figure, the status text,
  the fingerprint to store and the view to store, or raises.
\<close>

type_synonym outputs = "figure \<times> string \<times> data_update option \<times> view option"

definition update_graph ::
  "pandas \<Rightarrow> filesystem \<Rightarrow> string \<Rightarrow> nat \<Rightarrow> string option \<Rightarrow> figure option \<Rightarrow> view option \<Rightarrow>
     view option \<Rightarrow> data_update option \<Rightarrow> event list \<times> (exn + outputs)" where
  "update_graph pd fs now n selected_ph_type current_figure relay_data stored_view_state
       last_data_update =
     (let update_time = ''Last updated: '' @ now in
      case fs FILE_PATH of
        None \<Rightarrow>
          ([], Inr (titled_figure ''Waiting for data file...'',
                    ''Waiting for file to be created...'', None, None))
      | Some f \<Rightarrow>
         (let current_modified_time = mtime f;
              need_data_update =
                (case last_data_update of
                   None \<Rightarrow> True
                 | Some lu \<Rightarrow>
                    \<not> (du_mtime lu = current_modified_time \<and> du_ph_type lu = selected_ph_type));
              current_view = capture_view relay_data stored_view_state
          in case (need_data_update, current_figure) of
               (False, Some fig) \<Rightarrow>
                 ([], and_then (apply_view_cached fig current_view) (\<lambda>fig'.
                        Inr (fig', update_time @ '' (no changes)'', last_data_update,
                             Some current_view)))
             | _ \<Rightarrow>
                (case read_csv_data pd fs FILE_PATH of
                   (evs, None) \<Rightarrow>
                     (evs, Inr (titled_figure ''Error reading data file'', ''Error reading data'',
                                None, Some current_view))
                 | (evs, Some (df, md)) \<Rightarrow>
                    (case build_figure pd df (time_col md) selected_ph_type current_view of
                       (evs', r) \<Rightarrow>
                         (evs @ evs',
                          and_then r (\<lambda>fig.
                            Inr (fig, update_time,
                                 Some \<lparr>du_mtime = current_modified_time,
                                       du_ph_type = selected_ph_type\<rparr>,
                                 Some current_view)))))))"

section \<open>A session: the callback run tick after tick\<close>

text \<open>
  Between two ticks the browser holds the three outputs of the last run that returned
  (lines 162 to 173 wire them back as state); a run that raises leaves them as they were.
\<close>

record session =
  s_figure :: "figure option"
  s_last :: "data_update option"
  s_view :: "view option"

definition start :: session where
  "start = \<lparr>s_figure = None, s_last = None, s_view = None\<rparr>"

definition tick ::
  "pandas \<Rightarrow> filesystem \<Rightarrow> string \<Rightarrow> nat \<Rightarrow> string option \<Rightarrow> view option \<Rightarrow> session \<Rightarrow>
     event list \<times> (exn + outputs)" where
  "tick pd fs now n sel relay_data s =
     update_graph pd fs now n sel (s_figure s) relay_data (s_view s) (s_last s)"

definition after_tick :: "session \<Rightarrow> exn + outputs \<Rightarrow> session" where
  "after_tick s r =
     (case r of
        Inl e \<Rightarrow> s
      | Inr (fig, status, lu, v) \<Rightarrow> \<lparr>s_figure = Some fig, s_last = lu, s_view = v\<rparr>)"

inductive reachable :: "pandas \<Rightarrow> session \<Rightarrow> bool" for pd :: pandas where
  reachable_start: "reachable pd start"
| reachable_tick: "reachable pd s \<Longrightarrow> reachable pd (after_tick s (snd (tick pd fs now n sel relay_data s)))"

section \<open>Vocabulary of the properties, and example inputs\<close>

text \<open>\<^verbatim>\<open>s.count()\<close>: the number of entries that are not missing.\<close>

definition count_notna :: "series \<Rightarrow> nat" where
  "count_notna s = length (filter Not (isna s))"

text \<open>
  A stand-in for \<^verbatim>\<open>pd.to_datetime\<close> in the examples: numbers are nanoseconds, the texts
  of a small table are timestamps, every other text is NaT.
\<close>

definition example_stamps :: "(string \<times> int) list" where
  "example_stamps =
     [(''2024-01-01 00:00:00'', 1704067200000000000),
      (''2024-01-01 00:00:05'', 1704067205000000000),
      (''2024-01-01 00:00:10'', 1704067210000000000)]"

definition example_parse :: "series \<Rightarrow> exn + (nat \<Rightarrow> int option)" where
  "example_parse s =
     Inr (\<lambda>i. case s of
            Floats xs \<Rightarrow> map_option (\<lambda>x. \<lfloor>x\<rfloor>) (xs ! i)
          | Objects xs \<Rightarrow> (case xs ! i of None \<Rightarrow> None | Some t \<Rightarrow> map_of example_stamps t)
          | Datetimes ts \<Rightarrow> ts ! i)"

text \<open>
  The arithmetic of the examples: the quantile by linear interpolation between the two
  nearest ranks, the default of \<^verbatim>\<open>Series.quantile\<close>, and the exact difference, product and
  sum. The values of the examples are small binary fractions, on which float64 computes
  these without rounding.
\<close>

definition linear_quantile :: "real list \<Rightarrow> real \<Rightarrow> real" where
  "linear_quantile vs q =
     (let xs = sort vs; h = real (length xs - 1) * q; lo = nat \<lfloor>h\<rfloor>; hi = nat \<lceil>h\<rceil>
      in xs ! lo + (h - real lo) * (xs ! hi - xs ! lo))"

definition exact_arith :: arith where
  "exact_arith = \<lparr>fl_quantile = linear_quantile, fl_sub = (-), fl_mul = (*), fl_add = (+)\<rparr>"

definition example_pandas :: pandas where
  "example_pandas =
     \<lparr>to_datetime = example_parse, to_datetime_format = example_parse,
      float64 = exact_arith, datetime64 = exact_arith\<rparr>"

text \<open>A file system with the one file, at \<^const>\<open>FILE_PATH\<close>.\<close>

definition one_file :: "real \<Rightarrow> dataframe \<Rightarrow> filesystem" where
  "one_file t df = (\<lambda>p. if p = FILE_PATH then Some \<lparr>mtime = t, parsed = Inr df\<rparr> else None)"

text \<open>A file system whose one file the CSV parser rejects.\<close>

definition unreadable :: filesystem where
  "unreadable =
     (\<lambda>p. if p = FILE_PATH
          then Some \<lparr>mtime = 100, parsed = Inl (ParserError ''Error tokenizing data'')\<rparr>
          else None)"

text \<open>
  Three rows, all inside the fence; four rows, the last outside the fence; six rows, the
  last without a value.
\<close>

definition df_short :: dataframe where
  "df_short = [(''samp_num'', Floats [Some 1, Some 2, Some 3]),
               (''pH_free'', Floats [Some 7, Some 8, Some 20])]"

definition df_guard :: dataframe where
  "df_guard = [(''samp_num'', Floats [Some 1, Some 2, Some 3, Some 4]),
               (''pH_free'', Floats [Some 7, Some 7, Some 7, Some 12])]"

definition df_gap :: dataframe where
  "df_gap = [(''samp_num'', Floats [Some 1, Some 2, Some 3, Some 4, Some 5, Some 6]),
             (''pH_free'', Floats [Some 7, Some 7, Some 7, Some 7, Some 7, None])]"

text \<open>
  A frame without time and sample-number columns, one with a time column and without a
  sample-number column, and one whose pH column is text.
\<close>

definition df_bare :: dataframe where
  "df_bare = [(''pH_free'', Floats [Some 7.5, Some 7.75])]"

definition df_unnumbered :: dataframe where
  "df_unnumbered =
     [(''pc_time'', Objects [Some ''2024-01-01 00:00:00'', Some ''2024-01-01 00:00:05'']),
      (''pH_free'', Floats [Some 7.5, Some 7.75])]"

definition df_text :: dataframe where
  "df_text = [(''samp_num'', Floats [Some 1, Some 2]),
              (''pH_free'', Objects [Some ''fault'', Some ''fault''])]"

text \<open>A frame with a time column of text and both known pH columns.\<close>

definition df_timed :: dataframe where
  "df_timed = [(''pc_time'', Objects [Some ''2024-01-01 00:00:00'', Some ''2024-01-01 00:00:05'',
                                       Some ''2024-01-01 00:00:10'']),
               (''samp_num'', Floats [Some 1, Some 2, Some 3]),
               (''pH_free'', Floats [Some 7, Some 8, Some 20]),
               (''ph_total'', Floats [Some 7.5, Some 8.5, Some 20.5])]"

text \<open>The frame \<^const>\<open>df_timed\<close> as the reader returns it, the time column converted.\<close>

definition df_timed_read :: dataframe where
  "df_timed_read =
     [(''pc_time'', Datetimes [Some 1704067200000000000, Some 1704067205000000000,
                               Some 1704067210000000000]),
      (''samp_num'', Floats [Some 1, Some 2, Some 3]),
      (''pH_free'', Floats [Some 7, Some 8, Some 20]),
      (''ph_total'', Floats [Some 7.5, Some 8.5, Some 20.5])]"

text \<open>
  A column whose every entry is missing, and the column that takes the place of such a
  time column (line 44).
\<close>

definition all_missing :: "dataframe \<Rightarrow> string \<Rightarrow> bool" where
  "all_missing df c = (case getitem df c of Inl e \<Rightarrow> False | Inr s \<Rightarrow> list_all id (isna s))"

definition fallback_column :: "dataframe \<Rightarrow> string" where
  "fallback_column df = (if ''samp_num'' \<in> set (columns df) then ''samp_num'' else hd (columns df))"

text \<open>
  The fingerprint of a tick is the file's modification time and the selected column; it
  is unchanged when the stored fingerprint is the same pair (lines 188 to 191).
\<close>

definition unchanged :: "csv_file \<Rightarrow> string option \<Rightarrow> data_update option \<Rightarrow> bool" where
  "unchanged f sel lu =
     (case lu of None \<Rightarrow> False | Some u \<Rightarrow> du_mtime u = mtime f \<and> du_ph_type u = sel)"

text \<open>The axis ranges of a figure, and a figure whose layout has both axes.\<close>

definition x_range :: "figure \<Rightarrow> (jval \<times> jval) option" where
  "x_range fig = (case xaxis (fig_layout fig) of None \<Rightarrow> None | Some a \<Rightarrow> axis_range a)"

definition y_range :: "figure \<Rightarrow> (jval \<times> jval) option" where
  "y_range fig = (case yaxis (fig_layout fig) of None \<Rightarrow> None | Some a \<Rightarrow> axis_range a)"

definition has_axes :: "figure \<Rightarrow> bool" where
  "has_axes fig = (xaxis (fig_layout fig) \<noteq> None \<and> yaxis (fig_layout fig) \<noteq> None)"

text \<open>A figure with the ranges of a view written on its two axes, and nothing else changed.\<close>

definition with_view :: "view \<Rightarrow> figure \<Rightarrow> figure" where
  "with_view cv fig =
     fig\<lparr>fig_layout := (fig_layout fig)
       \<lparr>xaxis := map_option (view_range cv ''xaxis.range'') (xaxis (fig_layout fig)),
        yaxis := map_option (view_range cv ''yaxis.range'') (yaxis (fig_layout fig))\<rparr>\<rparr>"

text \<open>
  A zoom as the browser reports it, a payload without any view key, and a short
  session: the first tick on a new file, then a tick after the zoom.
\<close>

definition example_view :: view where
  "example_view = [(''xaxis.range[0]'', JNum 1), (''xaxis.range[1]'', JNum 2),
                   (''yaxis.range[0]'', JNum 6), (''yaxis.range[1]'', JNum 9)]"

definition example_noise :: view where
  "example_noise = [(''dragmode'', JStr ''pan'')]"

definition example_file :: csv_file where
  "example_file = \<lparr>mtime = 100, parsed = Inr df_timed\<rparr>"

definition first_session :: session where
  "first_session =
     after_tick start
       (snd (tick example_pandas (one_file 100 df_timed) ''12:00:00'' 0 (Some ''ph_total'') None start))"

definition second_session :: session where
  "second_session =
     after_tick first_session
       (snd (tick example_pandas (one_file 100 df_timed) ''12:00:05'' 1 (Some ''ph_total'')
          (Some example_view) first_session))"

text \<open>
  The global variables when the module is loaded, and after the first run of the
  dropdown callback on the example file with nothing selected.
\<close>

definition initial_globals :: globals where
  "initial_globals = \<lparr>last_modified_time = None, dropdown_options = [], dropdown_value = None\<rparr>"

definition cached_globals :: globals where
  "cached_globals =
     \<lparr>last_modified_time = Some 100,
      dropdown_options = [(''pH_free'', ''pH_free''), (''ph_total'', ''ph_total'')],
      dropdown_value = Some ''ph_total''\<rparr>"

text \<open>The figure and the fingerprint a run returns, if it returns.\<close>

definition figure_of :: "event list \<times> (exn + outputs) \<Rightarrow> figure option" where
  "figure_of r = (case snd r of Inl e \<Rightarrow> None | Inr (fig, st, lu, v) \<Rightarrow> Some fig)"

definition fingerprint_of :: "event list \<times> (exn + outputs) \<Rightarrow> data_update option" where
  "fingerprint_of r = (case snd r of Inl e \<Rightarrow> None | Inr (fig, st, lu, v) \<Rightarrow> lu)"

section \<open>Data frames and boolean indexing\<close>

lemma length_pick_split:
  "length (pick m xs) + length (pick (map Not m) xs) = min (length m) (length xs)"
proof (induction m arbitrary: xs)
  case Nil
  then show ?case by (simp add: pick_def)
next
  case (Cons b m)
  show ?case
  proof (cases xs)
    case Nil
    then show ?thesis by (simp add: pick_def)
  next
    case (Cons y ys)
    with Cons.IH [of ys] show ?thesis by (cases b) (simp_all add: pick_def)
  qed
qed

lemma pick_all: "length xs \<le> n \<Longrightarrow> pick (replicate n True) xs = xs"
proof (induction xs arbitrary: n)
  case Nil
  then show ?case by (simp add: pick_def)
next
  case (Cons x xs)
  then obtain k where "n = Suc k" by (cases n) auto
  with Cons show ?case by (simp add: pick_def)
qed

lemma pick_none: "pick (replicate n False) xs = []"
proof -
  have "\<forall>p \<in> set (zip (replicate n False) xs). \<not> fst p"
    by (auto dest: set_zip_leftD)
  then show ?thesis by (simp add: pick_def)
qed

lemma len_select_split: "len (select m s) + len (select (map Not m) s) = min (length m) (len s)"
  by (cases s) (simp_all add: length_pick_split)

lemma select_all: "len s \<le> n \<Longrightarrow> select (replicate n True) s = s"
  by (cases s) (simp_all add: pick_all)

lemma len_select_none: "len (select (replicate n False) s) = 0"
  by (cases s) (simp_all add: pick_none)

lemma map_of_boolean_index: "map_of (boolean_index df m) c = map_option (select m) (map_of df c)"
  by (induction df) (auto simp: boolean_index_def)

lemma getitem_boolean_index:
  "getitem df c = Inr s \<Longrightarrow> getitem (boolean_index df m) c = Inr (select m s)"
  by (auto simp: getitem_def map_of_boolean_index split: option.splits)

lemma columns_boolean_index: "columns (boolean_index df m) = columns df"
  by (induction df) (auto simp: boolean_index_def columns_def)

lemma getitem_in_set: "getitem df c = Inr s \<Longrightarrow> (c, s) \<in> set df"
  by (auto simp: getitem_def split: option.splits dest: map_of_SomeD)

lemma getitem_columns: "c \<in> set (columns df) \<Longrightarrow> \<exists>s. getitem df c = Inr s"
  by (induction df) (auto simp: getitem_def columns_def)

lemma getitem_is_column: "getitem df c = Inr s \<Longrightarrow> c \<in> set (columns df)"
  by (auto simp: getitem_def columns_def split: option.splits dest: map_of_SomeD intro: rev_image_eqI)

lemma wf_getitem: "wf_df df \<Longrightarrow> getitem df c = Inr s \<Longrightarrow> len s = nrows df"
  by (auto simp: wf_df_def list_all_iff dest!: getitem_in_set)

lemma numeric_length: "numeric s = Inr vs \<Longrightarrow> length vs = len s"
  by (cases s) (auto split: if_splits)

lemma boolean_index_all: "wf_df df \<Longrightarrow> boolean_index df (replicate (nrows df) True) = df"
proof -
  assume "wf_df df"
  then have "\<forall>(c, s) \<in> set df. len s \<le> nrows df"
    by (auto simp: wf_df_def list_all_iff)
  then have "map (\<lambda>(c, s). (c, select (replicate (nrows df) True) s)) df = map (\<lambda>x. x) df"
    by (intro map_cong) (auto simp: select_all)
  then show ?thesis by (simp add: boolean_index_def)
qed

lemma nrows_boolean_index_none: "nrows (boolean_index df (replicate n False)) = 0"
  by (cases df) (auto simp: boolean_index_def nrows_def len_select_none)

lemma all_len_boolean_index_none:
  "list_all (\<lambda>(c, s). len s = 0) (boolean_index df (replicate n False))"
  by (auto simp: boolean_index_def list_all_iff len_select_none)

lemma normal_mask_length:
  assumes "wf_df df" "getitem df m = Inr ys" "normal_mask pd df ys = Inr msk"
  shows "length msk = nrows df"
proof -
  from assms(3) obtain vs where vs: "numeric ys = Inr vs"
    by (cases "numeric ys") (auto simp: normal_mask_def)
  have "length vs = nrows df"
    using numeric_length [OF vs] wf_getitem [OF assms(1,2)] by simp
  with assms(3) vs show ?thesis
    by (auto simp: normal_mask_def Let_def split: if_splits)
qed

section \<open>The classification\<close>

text \<open>
  C6. When fewer than five rows lie inside the fence \<open>[q1 - 1.5 * iqr, q3 + 1.5 * iqr]\<close>
  of the selected column, as the arithmetic of the column computes it, the classification
  returns the whole data frame as the normal rows, and the outliers have no row. This
  holds for every arithmetic, so for float64 with its rounding. In the example one row
  of four lies outside the fence and is a normal row all the same.
\<close>

theorem degenerate_fence_all_normal:
  assumes "wf_df df" and "getitem df m = Inr ys" and "numeric ys = Inr vs"
    and "length (filter (in_fence (fence (arith_of pd ys) vs)) vs) < 5"
  shows "\<exists>df_outliers. classify pd df m = Inr (df, df_outliers) \<and> nrows df_outliers = 0 \<and>
           list_all (\<lambda>(c, s). len s = 0) df_outliers"
proof -
  have "length (filter id (map (in_fence (fence (arith_of pd ys) vs)) vs)) = length (filter (in_fence (fence (arith_of pd ys) vs)) vs)"
    by (simp add: filter_map comp_def)
  with assms(4) have "normal_mask pd df ys = Inr (replicate (nrows df) True)"
    using assms(3) by (simp add: normal_mask_def Let_def)
  then have "classify pd df m =
      Inr (boolean_index df (replicate (nrows df) True), boolean_index df (replicate (nrows df) False))"
    using assms(2) by (simp add: classify_def)
  then show ?thesis
    using boolean_index_all [OF assms(1)] nrows_boolean_index_none all_len_boolean_index_none
    by auto
qed

theorem degenerate_fence_all_normal_witness:
  "wf_df df_guard \<and>
   getitem df_guard ''pH_free'' = Inr (Floats [Some 7, Some 7, Some 7, Some 12]) \<and>
   numeric (Floats [Some 7, Some 7, Some 7, Some 12]) = Inr [Some 7, Some 7, Some 7, Some 12] \<and>
   fence (arith_of example_pandas (Floats [Some 7, Some 7, Some 7, Some 12]))
       [Some 7, Some 7, Some 7, Some 12] = (Some (41 / 8), Some (81 / 8)) \<and>
   \<not> in_fence (Some (41 / 8), Some (81 / 8)) (Some 12) \<and>
   length (filter (in_fence (fence (arith_of example_pandas (Floats [Some 7, Some 7, Some 7, Some 12]))
                     [Some 7, Some 7, Some 7, Some 12]))
             [Some 7, Some 7, Some 7, Some 12]) = 3 \<and>
   (\<exists>df_outliers. classify example_pandas df_guard ''pH_free'' = Inr (df_guard, df_outliers) \<and>
      nrows df_outliers = 0 \<and> list_all (\<lambda>(c, s). len s = 0) df_outliers)"
proof -
  let ?ys = "Floats [Some 7, Some 7, Some 7, Some 12]"
  let ?vs = "[Some 7, Some 7, Some 7, Some (12 :: real)]"
  have h1: "wf_df df_guard" by code_simp
  have h2: "getitem df_guard ''pH_free'' = Inr ?ys" by code_simp
  have h3: "numeric ?ys = Inr ?vs" by simp
  have h4: "length (filter (in_fence (fence (arith_of example_pandas ?ys) ?vs)) ?vs) = 3"
    by code_simp
  have h5: "fence (arith_of example_pandas ?ys) ?vs = (Some (41 / 8), Some (81 / 8))" by code_simp
  have h6: "\<not> in_fence (Some (41 / 8), Some (81 / 8)) (Some 12)" by code_simp
  from h4 have h4': "length (filter (in_fence (fence (arith_of example_pandas ?ys) ?vs)) ?vs) < 5"
    by simp
  show ?thesis
    by (intro conjI h1 h2 h3 h4 h5 h6
        degenerate_fence_all_normal [where pd = example_pandas, OF h1 h2 h3 h4'])
qed

text \<open>The chart of such a column has the trace of all rows and no trace of outliers.\<close>

lemma degenerate_fence_chart:
  assumes "wf_df df" and "getitem df m = Inr ys" and "numeric ys = Inr vs"
    and "length (filter (in_fence (fence (arith_of pd ys) vs)) vs) < 5"
    and "getitem df tc = Inr xa" and "getitem df ''samp_num'' = Inr ya"
  shows "data_chart pd df tc m cv =
           Inr \<lparr>fig_data = [scatter xa ys ''lines+markers'' m False,
                             scatter xa ya ''lines'' ''Sample Number'' True],
                fig_layout = data_layout tc (is_datetime xa) m cv (fig_layout make_subplots)\<rparr>"
proof -
  have "length (filter id (map (in_fence (fence (arith_of pd ys) vs)) vs)) =
          length (filter (in_fence (fence (arith_of pd ys) vs)) vs)"
    by (simp add: filter_map comp_def)
  with assms(4) have "normal_mask pd df ys = Inr (replicate (nrows df) True)"
    using assms(3) by (simp add: normal_mask_def Let_def)
  then have c: "classify pd df m = Inr (df, boolean_index df (replicate (nrows df) False))"
    using assms(2) boolean_index_all [OF assms(1)] by (simp add: classify_def)
  have sn: "''samp_num'' \<in> set (columns df)" by (rule getitem_is_column [OF assms(6)])
  have "data_traces df tc m df (boolean_index df (replicate (nrows df) False)) =
          Inr [scatter xa ys ''lines+markers'' m False, scatter xa ya ''lines'' ''Sample Number'' True]"
    unfolding data_traces_def
    by (simp add: assms(2,5,6) nrows_boolean_index_none sn)
  then show ?thesis
    by (simp add: data_chart_def c assms(5))
qed

text \<open>
  C4, as the source has it. The normal rows and the outliers together are all rows of
  the data frame, those without a value included: a missing value fails the comparison
  with the fence, so its row is an outlier, or a normal row when the fence is given up.
  The two series together have as many points as there are rows with a value only when
  no value is missing.
\<close>

theorem classify_covers_all_rows:
  assumes "wf_df df" and "getitem df m = Inr ys" and "numeric ys = Inr vs"
  shows "\<exists>dn dout yn yo. classify pd df m = Inr (dn, dout) \<and>
           getitem dn m = Inr yn \<and> getitem dout m = Inr yo \<and>
           len yn + len yo = nrows df \<and>
           nrows df = count_notna ys + (len ys - count_notna ys)"
proof -
  obtain msk where msk: "normal_mask pd df ys = Inr msk"
    using assms(3) by (auto simp: normal_mask_def Let_def)
  have lm: "length msk = nrows df" by (rule normal_mask_length [OF assms(1,2) msk])
  have ly: "len ys = nrows df" by (rule wf_getitem [OF assms(1,2)])
  have c: "classify pd df m = Inr (boolean_index df msk, boolean_index df (map Not msk))"
    using assms(2) msk by (simp add: classify_def)
  have "len (select msk ys) + len (select (map Not msk) ys) = nrows df"
    using len_select_split [of msk ys] lm ly by simp
  moreover have "count_notna ys \<le> len ys"
    by (cases ys) (simp_all add: count_notna_def)
  ultimately show ?thesis
    using c getitem_boolean_index [OF assms(2)] ly by auto
qed

theorem classify_covers_all_rows_witness:
  "wf_df df_gap \<and>
   getitem df_gap ''pH_free'' = Inr (Floats [Some 7, Some 7, Some 7, Some 7, Some 7, None]) \<and>
   numeric (Floats [Some 7, Some 7, Some 7, Some 7, Some 7, None]) =
     Inr [Some 7, Some 7, Some 7, Some 7, Some 7, None] \<and>
   nrows df_gap = 6 \<and>
   (\<exists>dn dout yn yo. classify example_pandas df_gap ''pH_free'' = Inr (dn, dout) \<and>
      getitem dn ''pH_free'' = Inr yn \<and> getitem dout ''pH_free'' = Inr yo \<and>
      len yn + len yo = nrows df_gap \<and>
      nrows df_gap =
        count_notna (Floats [Some 7, Some 7, Some 7, Some 7, Some 7, None]) +
        (len (Floats [Some 7, Some 7, Some 7, Some 7, Some 7, None]) -
         count_notna (Floats [Some 7, Some 7, Some 7, Some 7, Some 7, None])))"
proof -
  have h1: "wf_df df_gap" by code_simp
  have h2: "getitem df_gap ''pH_free'' = Inr (Floats [Some 7, Some 7, Some 7, Some 7, Some 7, None])"
    by code_simp
  have h3: "numeric (Floats [Some 7, Some 7, Some 7, Some 7, Some 7, None]) =
     Inr [Some 7, Some 7, Some 7, Some 7, Some 7, None]" by simp
  have h4: "nrows df_gap = 6" by code_simp
  show ?thesis
    by (intro conjI h1 h2 h3 h4 classify_covers_all_rows [OF h1 h2 h3])
qed

text \<open>
  C4 as the claim states it fails on a column with a missing value: of six rows, five
  with the value 7 and one without a value, the five are normal and the row without a
  value is the outlier, six points for five values.
\<close>

theorem classify_counts_missing_values_counterexample:
  "classify example_pandas df_gap ''pH_free'' =
     Inr ([(''samp_num'', Floats [Some 1, Some 2, Some 3, Some 4, Some 5]),
           (''pH_free'', Floats [Some 7, Some 7, Some 7, Some 7, Some 7])],
          [(''samp_num'', Floats [Some 6]), (''pH_free'', Floats [None])]) \<and>
   len (Floats [Some 7, Some 7, Some 7, Some 7, Some 7]) + len (Floats [None]) = 6 \<and>
   count_notna (Floats [Some 7, Some 7, Some 7, Some 7, Some 7, None]) = 5"
  by code_simp

section \<open>The time column\<close>

text \<open>
  The time column the reader resolves, in general: the order of the source, and that the
  column exists in the data frame except when none of the three names is a column.
\<close>

lemma columns_setitem: "columns (setitem df c s) = columns df"
  by (induction df) (auto simp: setitem_def columns_def)

lemma handle_time_columns_result:
  assumes "handle_time_columns pd df0 = Inr (df, tc)"
  shows "columns df = columns df0 \<and>
         tc = (if ''pc_time'' \<in> set (columns df0) then ''pc_time''
               else if ''ph_time'' \<in> set (columns df0) then ''ph_time'' else ''samp_num'')"
  using assms
  by (auto simp: handle_time_columns_def columns_setitem split: if_splits sum.splits)

lemma verify_time_column_result:
  assumes "verify_time_column df tc = Inr (evs, tc')"
  shows "tc' = tc \<or> tc' \<in> set (columns df)"
  using assms
  by (auto simp: verify_time_column_def split: if_splits sum.splits list.splits)

lemma time_not_in_samp_num: "\<not> sublist ''time'' (lower ''samp_num'')"
  by code_simp

lemma verify_sample_column: "verify_time_column df ''samp_num'' = Inr ([], ''samp_num'')"
  by (simp add: verify_time_column_def time_not_in_samp_num)

lemma resolved_time_column_exists:
  assumes "read_csv_data pd fs path = (evs, Some (df, md))"
  shows "time_col md \<in> set (columns df) \<or>
         (''pc_time'' \<notin> set (columns df) \<and> ''ph_time'' \<notin> set (columns df) \<and>
          ''samp_num'' \<notin> set (columns df) \<and> time_col md = ''samp_num'')"
proof -
  from assms obtain f evs0 where f: "fs path = Some f"
    and rb: "read_body pd f = Inr (evs0, Some (df, md))"
    by (auto simp: read_csv_data_def split: option.splits sum.splits)
  from rb obtain df0 tc0 evs1 where p: "parsed f = Inr df0"
    and h: "handle_time_columns pd df0 = Inr (df, tc0)"
    and v: "verify_time_column df tc0 = Inr (evs1, time_col md)"
    by (auto simp: read_body_def Let_def split: sum.splits prod.splits if_splits)
  from handle_time_columns_result [OF h] have c: "columns df = columns df0"
    and tc0: "tc0 = (if ''pc_time'' \<in> set (columns df0) then ''pc_time''
               else if ''ph_time'' \<in> set (columns df0) then ''ph_time'' else ''samp_num'')"
    by auto
  from verify_time_column_result [OF v] have "time_col md = tc0 \<or> time_col md \<in> set (columns df)" .
  with tc0 c show ?thesis by (auto split: if_splits)
qed

lemma time_in_pc_time: "sublist ''time'' (lower ''pc_time'')"
  by code_simp

lemma time_in_ph_time: "sublist ''time'' (lower ''ph_time'')"
  by code_simp

lemma verify_time_column_named_time:
  assumes "sublist ''time'' (lower tc)" and "tc \<in> set (columns df)"
    and "verify_time_column df tc = Inr (evs, tc')"
  shows "tc' = (if all_missing df tc then fallback_column df else tc)"
proof -
  from getitem_columns [OF assms(2)] obtain s where s: "getitem df tc = Inr s" ..
  from assms(2) obtain c cs where cs: "columns df = c # cs" by (cases "columns df") auto
  from assms(1,3) s cs show ?thesis
    by (auto simp: verify_time_column_def all_missing_def fallback_column_def split: if_splits)
qed

lemma resolved_time_column_order:
  assumes "read_csv_data pd fs path = (evs, Some (df, md))"
  shows "time_col md =
     (if ''pc_time'' \<in> set (columns df) then
        (if all_missing df ''pc_time'' then fallback_column df else ''pc_time'')
      else if ''ph_time'' \<in> set (columns df) then
        (if all_missing df ''ph_time'' then fallback_column df else ''ph_time'')
      else ''samp_num'')"
proof -
  from assms obtain f evs0 where f: "fs path = Some f"
    and rb: "read_body pd f = Inr (evs0, Some (df, md))"
    by (auto simp: read_csv_data_def split: option.splits sum.splits)
  from rb obtain df0 tc0 evs1 where p: "parsed f = Inr df0"
    and h: "handle_time_columns pd df0 = Inr (df, tc0)"
    and v: "verify_time_column df tc0 = Inr (evs1, time_col md)"
    by (auto simp: read_body_def Let_def split: sum.splits prod.splits if_splits)
  from handle_time_columns_result [OF h] have c: "columns df = columns df0"
    and tc0: "tc0 = (if ''pc_time'' \<in> set (columns df0) then ''pc_time''
               else if ''ph_time'' \<in> set (columns df0) then ''ph_time'' else ''samp_num'')"
    by auto
  show ?thesis
  proof (cases "''pc_time'' \<in> set (columns df)")
    case True
    with tc0 c have "tc0 = ''pc_time''" by simp
    with v True show ?thesis
      using verify_time_column_named_time [OF time_in_pc_time True] by simp
  next
    case False
    show ?thesis
    proof (cases "''ph_time'' \<in> set (columns df)")
      case True
      with tc0 c False have "tc0 = ''ph_time''" by simp
      with v True False show ?thesis
        using verify_time_column_named_time [OF time_in_ph_time True] by simp
    next
      case nph: False
      with tc0 c False have "tc0 = ''samp_num''" by simp
      with v False nph show ?thesis by (simp add: verify_sample_column)
    qed
  qed
qed

section \<open>The paths of the graph callback\<close>

lemma and_then_Inr: "and_then m f = Inr y \<longleftrightarrow> (\<exists>x. m = Inr x \<and> f x = Inr y)"
  by (cases m) simp_all

lemma apply_view_cached_axes:
  assumes "has_axes fig"
  shows "apply_view_cached fig cv = Inr (with_view cv fig)"
proof -
  from assms obtain ax ay where a: "xaxis (fig_layout fig) = Some ax" "yaxis (fig_layout fig) = Some ay"
    by (auto simp: has_axes_def)
  show ?thesis
  proof (cases "cv = []")
    case True
    with a show ?thesis
      by (simp add: apply_view_cached_def with_view_def view_range_def)
  next
    case False
    with a show ?thesis
      by (cases "range_of cv ''xaxis.range''"; cases "range_of cv ''yaxis.range''")
        (simp_all add: apply_view_cached_def set_cached_range_def with_view_def view_range_def)
  qed
qed

lemma has_axes_with_view: "has_axes fig \<Longrightarrow> has_axes (with_view cv fig)"
  by (auto simp: has_axes_def with_view_def)

lemma has_axes_data_chart: "data_chart pd df tc sel cv = Inr fig \<Longrightarrow> has_axes fig"
  by (auto simp: data_chart_def and_then_Inr has_axes_def data_layout_def make_subplots_def
      split: prod.splits)

lemma has_axes_not_found: "has_axes (not_found_chart sel)"
  by (simp add: has_axes_def not_found_chart_def make_subplots_def)

lemma has_axes_build_figure: "build_figure pd df tc sel cv = (evs, Inr fig) \<Longrightarrow> has_axes fig"
  by (auto simp: build_figure_def has_axes_not_found has_axes_data_chart
      split: option.splits if_splits)

lemma update_graph_missing:
  "fs FILE_PATH = None \<Longrightarrow>
   update_graph pd fs now n sel cur relay stored lu =
     ([], Inr (titled_figure ''Waiting for data file...'', ''Waiting for file to be created...'',
               None, None))"
  by (simp add: update_graph_def)

lemma update_graph_reuse:
  "fs FILE_PATH = Some f \<Longrightarrow> unchanged f sel lu \<Longrightarrow> cur = Some fig \<Longrightarrow>
   update_graph pd fs now n sel cur relay stored lu =
     ([], and_then (apply_view_cached fig (capture_view relay stored)) (\<lambda>fig'.
            Inr (fig', ''Last updated: '' @ now @ '' (no changes)'', lu,
                 Some (capture_view relay stored))))"
  by (auto simp: update_graph_def unchanged_def Let_def split: option.splits)

lemma update_graph_rebuild:
  "fs FILE_PATH = Some f \<Longrightarrow> \<not> unchanged f sel lu \<or> cur = None \<Longrightarrow>
   update_graph pd fs now n sel cur relay stored lu =
     (case read_csv_data pd fs FILE_PATH of
        (evs, None) \<Rightarrow>
          (evs, Inr (titled_figure ''Error reading data file'', ''Error reading data'', None,
                     Some (capture_view relay stored)))
      | (evs, Some (df, md)) \<Rightarrow>
          (evs @ fst (build_figure pd df (time_col md) sel (capture_view relay stored)),
           and_then (snd (build_figure pd df (time_col md) sel (capture_view relay stored))) (\<lambda>fig.
             Inr (fig, ''Last updated: '' @ now, Some \<lparr>du_mtime = mtime f, du_ph_type = sel\<rparr>,
                  Some (capture_view relay stored)))))"
  by (auto simp: update_graph_def unchanged_def Let_def split: option.splits prod.splits bool.splits)

lemma update_graph_keeps_axes:
  assumes "snd (update_graph pd fs now n sel cur relay stored lu) = Inr (fig', st, lu', v)"
    and "lu' \<noteq> None"
    and "lu \<noteq> None \<Longrightarrow> cur \<noteq> None \<Longrightarrow> has_axes (the cur)"
  shows "has_axes fig'"
proof (cases "fs FILE_PATH")
  case None
  with assms(1,2) show ?thesis by (simp add: update_graph_missing)
next
  case (Some f)
  show ?thesis
  proof (cases "unchanged f sel lu \<and> cur \<noteq> None")
    case True
    then obtain fig where fig: "cur = Some fig" and u: "unchanged f sel lu" by auto
    from u have "lu \<noteq> None" by (auto simp: unchanged_def split: option.splits)
    with assms(3) fig have ax: "has_axes fig" by simp
    from assms(1) have "fig' = with_view (capture_view relay stored) fig"
      by (simp add: update_graph_reuse [where fs = fs and f = f, OF Some u fig]
          apply_view_cached_axes [OF ax])
    then show ?thesis
      using has_axes_with_view [OF ax] by simp
  next
    case False
    then have nb: "\<not> unchanged f sel lu \<or> cur = None" by auto
    obtain evs r where rd: "read_csv_data pd fs FILE_PATH = (evs, r)" by (cases "read_csv_data pd fs FILE_PATH")
    show ?thesis
    proof (cases r)
      case None
      with assms(1,2) rd show ?thesis by (simp add: update_graph_rebuild [where fs = fs and f = f, OF Some nb])
    next
      case (Some dm)
      obtain df md where dm: "dm = (df, md)" by (cases dm)
      obtain evs' b where b: "build_figure pd df (time_col md) sel (capture_view relay stored) = (evs', b)"
        by (cases "build_figure pd df (time_col md) sel (capture_view relay stored)")
      from assms(1) rd Some dm b have "b = Inr fig'"
        by (cases b) (simp_all add: update_graph_rebuild [where fs = fs and f = f, OF \<open>fs FILE_PATH = Some f\<close> nb])
      with b show ?thesis by (auto dest: has_axes_build_figure)
    qed
  qed
qed

lemma reachable_cached_axes:
  "reachable pd s \<Longrightarrow> s_last s \<noteq> None \<Longrightarrow> \<exists>fig. s_figure s = Some fig \<and> has_axes fig"
proof (induction rule: reachable.induct)
  case reachable_start
  then show ?case by (simp add: start_def)
next
  case (reachable_tick s fs now n sel relay_data)
  show ?case
  proof (cases "snd (tick pd fs now n sel relay_data s)")
    case (Inl e)
    with reachable_tick show ?thesis by (simp add: after_tick_def)
  next
    case (Inr out)
    obtain fig' st lu' v where out: "out = (fig', st, lu', v)" by (cases out)
    from reachable_tick.prems Inr out have lu': "lu' \<noteq> None" by (simp add: after_tick_def)
    have "has_axes fig'"
    proof (rule update_graph_keeps_axes [OF _ lu'])
      show "snd (update_graph pd fs now n sel (s_figure s) relay_data (s_view s) (s_last s)) =
              Inr (fig', st, lu', v)"
        using Inr out by (simp add: tick_def)
      show "s_last s \<noteq> None \<Longrightarrow> s_figure s \<noteq> None \<Longrightarrow> has_axes (the (s_figure s))"
        using reachable_tick.IH by auto
    qed
    with Inr out show ?thesis by (simp add: after_tick_def)
  qed
qed

section \<open>The reuse path\<close>

text \<open>
  C1. In a session, a tick whose fingerprint (modification time of the file, selected
  column) is the stored one, and which finds a figure, reads no source and classifies
  nothing: it has no event at all. It returns the figure it found with the ranges of the
  current view written on the two axes, the traces as they were, the status ending in
  "(no changes)", and the stored fingerprint.
\<close>

theorem unchanged_fingerprint_reuses_figure:
  assumes "reachable pd s" and "fs FILE_PATH = Some f"
    and "unchanged f sel (s_last s)" and "s_figure s = Some fig"
  shows "tick pd fs now n sel relay_data s =
           ([], Inr (with_view (capture_view relay_data (s_view s)) fig,
                     ''Last updated: '' @ now @ '' (no changes)'', s_last s,
                     Some (capture_view relay_data (s_view s)))) \<and>
         fig_data (with_view (capture_view relay_data (s_view s)) fig) = fig_data fig"
proof -
  from assms(3) have "s_last s \<noteq> None" by (auto simp: unchanged_def split: option.splits)
  with reachable_cached_axes [OF assms(1)] assms(4) have ax: "has_axes fig" by auto
  show ?thesis
    by (simp add: tick_def update_graph_reuse [where fs = fs and f = f, OF assms(2,3,4)] apply_view_cached_axes [OF ax]
        with_view_def)
qed


theorem unchanged_fingerprint_reuses_figure_witness:
  "reachable example_pandas first_session \<and>
   one_file 100 df_timed FILE_PATH = Some example_file \<and>
   unchanged example_file (Some ''ph_total'') (s_last first_session) \<and>
   s_figure first_session = Some (the (s_figure first_session)) \<and>
   tick example_pandas (one_file 100 df_timed) ''12:00:05'' 1 (Some ''ph_total'') (Some example_view)
       first_session =
     ([], Inr (with_view example_view (the (s_figure first_session)),
               ''Last updated: 12:00:05 (no changes)'',
               Some \<lparr>du_mtime = 100, du_ph_type = Some ''ph_total''\<rparr>, Some example_view)) \<and>
   x_range (with_view example_view (the (s_figure first_session))) = Some (JNum 1, JNum 2)"
proof -
  have r: "reachable example_pandas first_session"
    unfolding first_session_def by (rule reachable_tick [OF reachable_start])
  have f: "one_file 100 df_timed FILE_PATH = Some example_file"
    by (simp add: one_file_def example_file_def)
  have u: "unchanged example_file (Some ''ph_total'') (s_last first_session)" by code_simp
  have g: "s_figure first_session = Some (the (s_figure first_session))" by code_simp
  have cv: "capture_view (Some example_view) (s_view first_session) = example_view" by code_simp
  have lu: "s_last first_session = Some \<lparr>du_mtime = 100, du_ph_type = Some ''ph_total''\<rparr>"
    by code_simp
  have x: "x_range (with_view example_view (the (s_figure first_session))) = Some (JNum 1, JNum 2)"
    by code_simp
  show ?thesis
    using unchanged_fingerprint_reuses_figure [where fs = "one_file 100 df_timed" and f = example_file,
        OF r f u g, of "''12:00:05''" 1 "Some example_view"] r f u g x
    by (simp add: cv lu)
qed

section \<open>The view on both paths\<close>

lemma range_of_nonempty: "range_of cv k = Some r \<Longrightarrow> cv \<noteq> []"
  by (auto simp: range_of_def)

lemma x_range_with_view:
  "has_axes fig \<Longrightarrow> range_of cv ''xaxis.range'' = Some xr \<Longrightarrow> x_range (with_view cv fig) = Some xr"
  by (auto simp: has_axes_def x_range_def with_view_def view_range_def dest: range_of_nonempty)

lemma y_range_with_view:
  "has_axes fig \<Longrightarrow> range_of cv ''yaxis.range'' = Some yr \<Longrightarrow> y_range (with_view cv fig) = Some yr"
  by (auto simp: has_axes_def y_range_def with_view_def view_range_def dest: range_of_nonempty)

lemma data_traces_returns:
  assumes "getitem df sel = Inr ys" and "getitem df tc = Inr xa"
    and "''samp_num'' \<in> set (columns df)"
  shows "\<exists>traces. data_traces df tc sel (boolean_index df m1) (boolean_index df m2) = Inr traces"
proof -
  from getitem_columns [OF assms(3)] obtain ya where ya: "getitem df ''samp_num'' = Inr ya" ..
  show ?thesis
    unfolding data_traces_def
    by (simp add: getitem_boolean_index [OF assms(1)] getitem_boolean_index [OF assms(2)] assms ya)
qed

lemma data_chart_returns:
  assumes "getitem df sel = Inr ys" and "numeric ys = Inr vs" and "getitem df tc = Inr xa"
    and "''samp_num'' \<in> set (columns df)"
  shows "\<exists>traces. data_chart pd df tc sel cv =
           Inr \<lparr>fig_data = traces,
                fig_layout = data_layout tc (is_datetime xa) sel cv (fig_layout make_subplots)\<rparr>"
proof -
  obtain msk where msk: "normal_mask pd df ys = Inr msk"
    using assms(2) by (auto simp: normal_mask_def Let_def)
  have c: "classify pd df sel = Inr (boolean_index df msk, boolean_index df (map Not msk))"
    using assms(1) msk by (simp add: classify_def)
  obtain traces where
    "data_traces df tc sel (boolean_index df msk) (boolean_index df (map Not msk)) = Inr traces"
    using data_traces_returns [OF assms(1,3,4)] by blast
  then show ?thesis
    by (simp add: data_chart_def c assms(3))
qed

lemma data_layout_ranges:
  assumes "range_of cv ''xaxis.range'' = Some xr" and "range_of cv ''yaxis.range'' = Some yr"
  shows "x_range \<lparr>fig_data = traces,
                 fig_layout = data_layout tc dt sel cv (fig_layout make_subplots)\<rparr> = Some xr"
    and "y_range \<lparr>fig_data = traces,
                 fig_layout = data_layout tc dt sel cv (fig_layout make_subplots)\<rparr> = Some yr"
  using assms range_of_nonempty [OF assms(1)]
  by (simp_all add: x_range_def y_range_def data_layout_def make_subplots_def view_range_def)

lemma update_graph_view:
  assumes "fs FILE_PATH = Some f"
    and "snd (update_graph pd fs now n sel cur relay stored lu) = Inr (fig, st, lu', v)"
  shows "v = Some (capture_view relay stored)"
proof (cases "unchanged f sel lu \<and> cur \<noteq> None")
  case True
  then obtain g where g: "cur = Some g" and u: "unchanged f sel lu" by auto
  from assms(2) show ?thesis
    by (auto simp: update_graph_reuse [where fs = fs and f = f, OF assms(1) u g] and_then_Inr)
next
  case False
  then have nb: "\<not> unchanged f sel lu \<or> cur = None" by auto
  from assms(2) show ?thesis
    by (auto simp: update_graph_rebuild [where fs = fs and f = f, OF assms(1) nb] and_then_Inr
        split: prod.splits option.splits)
qed

text \<open>
  C2, as the source has it. With both range pairs, of numbers, in the current view, a
  tick in a session returns a figure whose x and y ranges are those pairs, whatever the
  data, on the reuse path and whenever it builds the chart of the data: the read
  succeeds, the selected column is a column of numbers or timestamps, and the file has a
  \<^verbatim>\<open>samp_num\<close> column. The placeholder figures carry no range.
\<close>

theorem view_ranges_on_both_paths:
  assumes "reachable pd s" and "fs FILE_PATH = Some f"
    and "range_of (capture_view relay_data (s_view s)) ''xaxis.range'' = Some (JNum x0, JNum x1)"
    and "range_of (capture_view relay_data (s_view s)) ''yaxis.range'' = Some (JNum y0, JNum y1)"
  shows "(unchanged f sel (s_last s) \<and> s_figure s \<noteq> None \<longrightarrow>
           (\<exists>fig st lu. tick pd fs now n sel relay_data s =
                ([], Inr (fig, st, lu, Some (capture_view relay_data (s_view s)))) \<and>
              x_range fig = Some (JNum x0, JNum x1) \<and> y_range fig = Some (JNum y0, JNum y1))) \<and>
         (read_csv_data pd fs FILE_PATH = (evs, Some (df, md)) \<and> getitem df m = Inr ys \<and>
          numeric ys = Inr vs \<and> ''samp_num'' \<in> set (columns df) \<longrightarrow>
           (\<exists>evs' fig st lu. tick pd fs now n (Some m) relay_data s =
                (evs', Inr (fig, st, lu, Some (capture_view relay_data (s_view s)))) \<and>
              x_range fig = Some (JNum x0, JNum x1) \<and> y_range fig = Some (JNum y0, JNum y1)))"
proof -
  let ?cv = "capture_view relay_data (s_view s)"
  have reuse: "\<exists>fig st lu. tick pd fs now n sel' relay_data s = ([], Inr (fig, st, lu, Some ?cv)) \<and>
              x_range fig = Some (JNum x0, JNum x1) \<and> y_range fig = Some (JNum y0, JNum y1)"
    if u: "unchanged f sel' (s_last s)" and g: "s_figure s \<noteq> None" for sel'
  proof -
    from g obtain fig where fig: "s_figure s = Some fig" by auto
    from u have "s_last s \<noteq> None" by (auto simp: unchanged_def split: option.splits)
    with reachable_cached_axes [OF assms(1)] fig have ax: "has_axes fig" by auto
    show ?thesis
      using x_range_with_view [OF ax assms(3)] y_range_with_view [OF ax assms(4)]
      by (simp add: tick_def update_graph_reuse [where fs = fs and f = f, OF assms(2) u fig]
          apply_view_cached_axes [OF ax])
  qed
  have rebuild: "\<exists>evs' fig st lu. tick pd fs now n (Some m) relay_data s =
                (evs', Inr (fig, st, lu, Some ?cv)) \<and> x_range fig = Some (JNum x0, JNum x1) \<and> y_range fig = Some (JNum y0, JNum y1)"
    if rd: "read_csv_data pd fs FILE_PATH = (evs, Some (df, md))" and ys: "getitem df m = Inr ys"
      and vs: "numeric ys = Inr vs" and sn: "''samp_num'' \<in> set (columns df)"
  proof (cases "unchanged f (Some m) (s_last s) \<and> s_figure s \<noteq> None")
    case True
    with reuse [of "Some m"] show ?thesis by blast
  next
    case False
    then have nb: "\<not> unchanged f (Some m) (s_last s) \<or> s_figure s = None" by auto
    have mc: "m \<in> set (columns df)" by (rule getitem_is_column [OF ys])
    have "time_col md \<in> set (columns df)"
      using resolved_time_column_exists [OF rd] sn by blast
    from getitem_columns [OF this] obtain xa where xa: "getitem df (time_col md) = Inr xa" ..
    obtain traces where tr: "data_chart pd df (time_col md) m ?cv =
           Inr \<lparr>fig_data = traces,
                fig_layout = data_layout (time_col md) (is_datetime xa) m ?cv (fig_layout make_subplots)\<rparr>"
      using data_chart_returns [OF ys vs xa sn] by blast
    show ?thesis
      using data_layout_ranges [OF assms(3,4)]
      by (simp add: tick_def update_graph_rebuild [where fs = fs and f = f, OF assms(2) nb] rd
          build_figure_def mc tr)
  qed
  from reuse rebuild show ?thesis by blast
qed

theorem view_ranges_on_both_paths_witness:
  "reachable example_pandas first_session \<and>
   one_file 100 df_timed FILE_PATH = Some example_file \<and>
   range_of (capture_view (Some example_view) (s_view first_session)) ''xaxis.range'' =
     Some (JNum 1, JNum 2) \<and>
   range_of (capture_view (Some example_view) (s_view first_session)) ''yaxis.range'' =
     Some (JNum 6, JNum 9) \<and>
   unchanged example_file (Some ''ph_total'') (s_last first_session) \<and>
   s_figure first_session \<noteq> None \<and>
   (\<exists>fig st lu. tick example_pandas (one_file 100 df_timed) ''12:00:05'' 1 (Some ''ph_total'')
        (Some example_view) first_session =
        ([], Inr (fig, st, lu, Some (capture_view (Some example_view) (s_view first_session)))) \<and>
      x_range fig = Some (JNum 1, JNum 2) \<and> y_range fig = Some (JNum 6, JNum 9)) \<and>
   read_csv_data example_pandas (one_file 100 df_timed) FILE_PATH =
     ([SourceRead FILE_PATH],
      Some (df_timed_read, \<lparr>time_col = ''pc_time'', ph_cols = [''pH_free'', ''ph_total'']\<rparr>)) \<and>
   getitem df_timed_read ''pH_free'' = Inr (Floats [Some 7, Some 8, Some 20]) \<and>
   numeric (Floats [Some 7, Some 8, Some 20]) = Inr [Some 7, Some 8, Some 20] \<and>
   ''samp_num'' \<in> set (columns df_timed_read) \<and>
   \<not> unchanged example_file (Some ''pH_free'') (s_last first_session) \<and>
   (\<exists>evs' fig st lu. tick example_pandas (one_file 100 df_timed) ''12:00:05'' 1 (Some ''pH_free'')
        (Some example_view) first_session =
        (evs', Inr (fig, st, lu, Some (capture_view (Some example_view) (s_view first_session)))) \<and>
      x_range fig = Some (JNum 1, JNum 2) \<and> y_range fig = Some (JNum 6, JNum 9))"
proof -
  have r: "reachable example_pandas first_session"
    unfolding first_session_def by (rule reachable_tick [OF reachable_start])
  have f: "one_file 100 df_timed FILE_PATH = Some example_file"
    by (simp add: one_file_def example_file_def)
  have x: "range_of (capture_view (Some example_view) (s_view first_session)) ''xaxis.range'' =
     Some (JNum 1, JNum 2)" by code_simp
  have y: "range_of (capture_view (Some example_view) (s_view first_session)) ''yaxis.range'' =
     Some (JNum 6, JNum 9)" by code_simp
  have u: "unchanged example_file (Some ''ph_total'') (s_last first_session)" by code_simp
  have g: "s_figure first_session \<noteq> None" by code_simp
  have rd: "read_csv_data example_pandas (one_file 100 df_timed) FILE_PATH =
     ([SourceRead FILE_PATH],
      Some (df_timed_read, \<lparr>time_col = ''pc_time'', ph_cols = [''pH_free'', ''ph_total'']\<rparr>))"
    by code_simp
  have ys: "getitem df_timed_read ''pH_free'' = Inr (Floats [Some 7, Some 8, Some 20])" by code_simp
  have vs: "numeric (Floats [Some 7, Some 8, Some 20]) = Inr [Some 7, Some 8, Some 20]" by simp
  have sn: "''samp_num'' \<in> set (columns df_timed_read)" by code_simp
  have nu: "\<not> unchanged example_file (Some ''pH_free'') (s_last first_session)" by code_simp
  note both = view_ranges_on_both_paths [where fs = "one_file 100 df_timed" and f = example_file,
      OF r f x y]
  have reuse: "\<exists>fig st lu. tick example_pandas (one_file 100 df_timed) ''12:00:05'' 1 (Some ''ph_total'')
        (Some example_view) first_session =
        ([], Inr (fig, st, lu, Some (capture_view (Some example_view) (s_view first_session)))) \<and>
      x_range fig = Some (JNum 1, JNum 2) \<and> y_range fig = Some (JNum 6, JNum 9)"
    using both [THEN conjunct1] u g by blast
  have rebuild: "\<exists>evs' fig st lu. tick example_pandas (one_file 100 df_timed) ''12:00:05'' 1 (Some ''pH_free'')
        (Some example_view) first_session =
        (evs', Inr (fig, st, lu, Some (capture_view (Some example_view) (s_view first_session)))) \<and>
      x_range fig = Some (JNum 1, JNum 2) \<and> y_range fig = Some (JNum 6, JNum 9)"
    using both [THEN conjunct2] rd ys vs sn by blast
  show ?thesis
    by (intro conjI r f x y u g reuse rd ys vs sn nu rebuild)
qed

text \<open>
  C2 as the claim states it fails on the rebuild path when no chart of the data is
  built. The view has both pairs; the figure returned for a file the parser rejects, and
  the figure returned for a selected column that is not in the file, have no range on
  either axis.
\<close>

theorem placeholder_ignores_view_counterexample:
  "update_graph example_pandas unreadable ''12:00:00'' 0 (Some ''pH_free'') None
       (Some example_view) None None =
     ([SourceRead FILE_PATH, PrintedError (ParserError ''Error tokenizing data'')],
      Inr (titled_figure ''Error reading data file'', ''Error reading data'', None,
           Some example_view)) \<and>
   x_range (titled_figure ''Error reading data file'') = None \<and>
   y_range (titled_figure ''Error reading data file'') = None \<and>
   update_graph example_pandas (one_file 100 df_short) ''12:00:00'' 0 (Some ''ph_total'') None
       (Some example_view) None None =
     ([SourceRead FILE_PATH],
      Inr (not_found_chart (Some ''ph_total''), ''Last updated: 12:00:00'',
           Some \<lparr>du_mtime = 100, du_ph_type = Some ''ph_total''\<rparr>, Some example_view)) \<and>
   x_range (not_found_chart (Some ''ph_total'')) = None \<and>
   y_range (not_found_chart (Some ''ph_total'')) = None \<and>
   range_of example_view ''xaxis.range'' = Some (JNum 1, JNum 2) \<and>
   range_of example_view ''yaxis.range'' = Some (JNum 6, JNum 9)"
  by code_simp

section \<open>The unknown selected column\<close>

text \<open>
  C3, as the source has it. On the rebuild path, after a successful read, a selected
  column that is not a column of the data frame (or no selection) gives the "not found"
  figure without traces and without a classification, and the fingerprint of this tick
  is the one returned for storing.
\<close>

theorem unknown_metric_placeholder:
  assumes "fs FILE_PATH = Some f" and "\<not> unchanged f sel lu \<or> cur = None"
    and "read_csv_data pd fs FILE_PATH = (evs, Some (df, md))"
    and "sel \<notin> Some ` set (columns df)"
  shows "update_graph pd fs now n sel cur relay_data stored lu =
           (evs, Inr (not_found_chart sel, ''Last updated: '' @ now,
                      Some \<lparr>du_mtime = mtime f, du_ph_type = sel\<rparr>,
                      Some (capture_view relay_data stored))) \<and>
         title (fig_layout (not_found_chart sel)) =
           Some (''Error: Selected column '' @ [CHR 0x27] @ py_str sel @ [CHR 0x27] @ '' not found'') \<and>
         fig_data (not_found_chart sel) = []"
proof -
  have "build_figure pd df (time_col md) sel (capture_view relay_data stored) =
          ([], Inr (not_found_chart sel))"
    using assms(4) by (auto simp: build_figure_def split: option.splits)
  then show ?thesis
    by (simp add: update_graph_rebuild [where fs = fs and f = f, OF assms(1,2)] assms(3)
        not_found_chart_def make_subplots_def)
qed

theorem unknown_metric_placeholder_witness:
  "one_file 100 df_short FILE_PATH = Some \<lparr>mtime = 100, parsed = Inr df_short\<rparr> \<and>
   \<not> unchanged \<lparr>mtime = 100, parsed = Inr df_short\<rparr> (Some ''ph_total'')
       (Some \<lparr>du_mtime = 50, du_ph_type = Some ''ph_total''\<rparr>) \<and>
   read_csv_data example_pandas (one_file 100 df_short) FILE_PATH =
     ([SourceRead FILE_PATH], Some (df_short, \<lparr>time_col = ''samp_num'', ph_cols = [''pH_free'']\<rparr>)) \<and>
   Some ''ph_total'' \<notin> Some ` set (columns df_short) \<and>
   update_graph example_pandas (one_file 100 df_short) ''12:00:00'' 0 (Some ''ph_total'') None None None
       (Some \<lparr>du_mtime = 50, du_ph_type = Some ''ph_total''\<rparr>) =
     ([SourceRead FILE_PATH],
      Inr (not_found_chart (Some ''ph_total''), ''Last updated: 12:00:00'',
           Some \<lparr>du_mtime = 100, du_ph_type = Some ''ph_total''\<rparr>, Some []))"
proof -
  have f: "one_file 100 df_short FILE_PATH = Some \<lparr>mtime = 100, parsed = Inr df_short\<rparr>"
    by (simp add: one_file_def)
  have nu: "\<not> unchanged \<lparr>mtime = 100, parsed = Inr df_short\<rparr> (Some ''ph_total'')
       (Some \<lparr>du_mtime = 50, du_ph_type = Some ''ph_total''\<rparr>)"
    by (simp add: unchanged_def)
  have rd: "read_csv_data example_pandas (one_file 100 df_short) FILE_PATH =
     ([SourceRead FILE_PATH], Some (df_short, \<lparr>time_col = ''samp_num'', ph_cols = [''pH_free'']\<rparr>))"
    by code_simp
  have nc: "Some ''ph_total'' \<notin> Some ` set (columns df_short)"
    by (simp add: columns_def df_short_def)
  have cv: "capture_view None None = []" by (simp add: capture_view_def)
  show ?thesis
    using unknown_metric_placeholder [where fs = "one_file 100 df_short"
        and f = "\<lparr>mtime = 100, parsed = Inr df_short\<rparr>", OF f disjI1 [OF nu] rd nc,
        of "''12:00:00''" 0 None None None] f nu rd nc
    by (simp add: cv)
qed

text \<open>
  C3 as the claim states it fails twice. The fingerprint stored before the tick (time 50)
  is replaced by the one of the tick (time 100) although the column was not found; and
  \<^verbatim>\<open>samp_num\<close>, a column that is not among the resolved pH columns, is charted and not
  reported as missing.
\<close>

theorem unknown_metric_updates_cache_counterexample:
  "fingerprint_of (update_graph example_pandas (one_file 100 df_short) ''12:00:00'' 0 (Some ''ph_total'')
       None None None (Some \<lparr>du_mtime = 50, du_ph_type = Some ''ph_total''\<rparr>)) =
     Some \<lparr>du_mtime = 100, du_ph_type = Some ''ph_total''\<rparr> \<and>
   figure_of (update_graph example_pandas (one_file 100 df_short) ''12:00:00'' 0 (Some ''ph_total'')
       None None None (Some \<lparr>du_mtime = 50, du_ph_type = Some ''ph_total''\<rparr>)) =
     Some (not_found_chart (Some ''ph_total'')) \<and>
   snd (read_csv_data example_pandas (one_file 100 df_short) FILE_PATH) =
     Some (df_short, \<lparr>time_col = ''samp_num'', ph_cols = [''pH_free'']\<rparr>) \<and>
   map_option (title \<circ> fig_layout)
     (figure_of (update_graph example_pandas (one_file 100 df_short) ''12:00:00'' 0 (Some ''samp_num'')
        None None None None)) = Some (Some ''samp_num vs samp_num'')"
  by code_simp


section \<open>The view state across ticks\<close>

text \<open>
  With the file present, a tick whose interaction payload is absent or empty takes the
  stored view as the current one and stores it again, whether the run returns or raises.
  The stored view is one with at least one entry.
\<close>

lemma empty_payload_keeps_view:
  assumes "relay_data = None \<or> relay_data = Some []" and "fs FILE_PATH = Some f"
    and "s_view s = Some (kv # kvs)"
  shows "capture_view relay_data (s_view s) = kv # kvs \<and>
         s_view (after_tick s (snd (tick pd fs now n sel relay_data s))) = s_view s"
proof -
  have cv: "capture_view relay_data (s_view s) = kv # kvs"
    using assms(1,3) by (auto simp: capture_view_def)
  have "s_view (after_tick s (snd (tick pd fs now n sel relay_data s))) = s_view s"
  proof (cases "snd (tick pd fs now n sel relay_data s)")
    case (Inl e)
    then show ?thesis by (simp add: after_tick_def)
  next
    case (Inr out)
    obtain fig st lu v where out: "out = (fig, st, lu, v)" by (cases out)
    from Inr out have "v = Some (capture_view relay_data (s_view s))"
      using update_graph_view [where fs = fs and f = f, OF assms(2)] by (simp add: tick_def)
    with Inr out cv assms(3) show ?thesis by (simp add: after_tick_def)
  qed
  with cv show ?thesis by simp
qed


lemma empty_payload_keeps_view_example:
  "one_file 100 df_timed FILE_PATH = Some example_file \<and>
   s_view second_session = Some example_view \<and>
   capture_view None (s_view second_session) = example_view \<and>
   s_view (after_tick second_session
      (snd (tick example_pandas (one_file 100 df_timed) ''12:00:10'' 2 (Some ''ph_total'') None
         second_session))) = Some example_view"
proof -
  have f: "one_file 100 df_timed FILE_PATH = Some example_file"
    by (simp add: one_file_def example_file_def)
  have v: "s_view second_session =
     Some ((''xaxis.range[0]'', JNum 1) #
           [(''xaxis.range[1]'', JNum 2), (''yaxis.range[0]'', JNum 6), (''yaxis.range[1]'', JNum 9)])"
    by code_simp
  have e: "example_view = (''xaxis.range[0]'', JNum 1) #
           [(''xaxis.range[1]'', JNum 2), (''yaxis.range[0]'', JNum 6), (''yaxis.range[1]'', JNum 9)]"
    by (simp add: example_view_def)
  show ?thesis
    using empty_payload_keeps_view [where fs = "one_file 100 df_timed" and f = example_file,
        OF disjI1 [OF refl] f v, of example_pandas "''12:00:10''" 2 "Some ''ph_total''"] f v
    by (simp add: e)
qed

text \<open>
  C5, at an input where the source loses the stored view. The session holds a zoom; the
  payload of the tick has one entry, \<^verbatim>\<open>dragmode\<close>, which is not a view key. The current view
  is then empty, the stored view is not consulted, and the view stored after the tick is
  the empty one, not the zoom stored before it.
\<close>

theorem noise_payload_erases_view:
  "s_view second_session = Some example_view \<and>
   capture_view (Some example_noise) (s_view second_session) = [] \<and>
   s_view (after_tick second_session
      (snd (tick example_pandas (one_file 100 df_timed) ''12:00:10'' 2 (Some ''ph_total'')
         (Some example_noise) second_session))) = Some [] \<and>
   s_view (after_tick second_session
      (snd (tick example_pandas (one_file 100 df_timed) ''12:00:10'' 2 (Some ''ph_total'')
         (Some example_noise) second_session))) \<noteq> s_view second_session"
  by code_simp

section \<open>The reader\<close>

text \<open>
  C7, at an input where the source leaves the stated order. A file whose only column is
  \<^verbatim>\<open>pH_free\<close> has no \<^verbatim>\<open>pc_time\<close>, no \<^verbatim>\<open>ph_time\<close> and no \<^verbatim>\<open>samp_num\<close>: the reader answers
  with the time column \<^verbatim>\<open>samp_num\<close>, a column the data frame does not have, and not with the
  first column.
\<close>

theorem missing_sample_column_not_replaced:
  "read_csv_data example_pandas (one_file 100 df_bare) FILE_PATH =
     ([SourceRead FILE_PATH], Some (df_bare, \<lparr>time_col = ''samp_num'', ph_cols = [''pH_free'']\<rparr>)) \<and>
   columns df_bare = [''pH_free''] \<and>
   getitem df_bare ''samp_num'' = Inl (KeyError ''samp_num'')"
  by code_simp

text \<open>
  C8, at the same input. The tick reads the file, starts the classification and raises
  \<^verbatim>\<open>KeyError\<close> when it takes the time column from the data frame: no figure and no
  status are returned.
\<close>

theorem tick_raises_without_sample_column:
  "update_graph example_pandas (one_file 100 df_bare) ''12:00:00'' 0 (Some ''pH_free'') None None None
       None =
     ([SourceRead FILE_PATH, Classify ''pH_free''], Inl (KeyError ''samp_num''))"
  by code_simp

text \<open>
  With a time column and without \<^verbatim>\<open>samp_num\<close> the tick raises \<^verbatim>\<open>ValueError\<close> in the last
  trace, and a pH column of text raises in the quantile.
\<close>

lemma tick_raises_on_unnumbered_rows:
  "update_graph example_pandas (one_file 100 df_unnumbered) ''12:00:00'' 0 (Some ''pH_free'') None
       None None None =
     ([SourceRead FILE_PATH, Classify ''pH_free''], Inl ValueError)"
  by code_simp

lemma tick_raises_on_text_column:
  "update_graph example_pandas (one_file 100 df_text) ''12:00:00'' 0 (Some ''pH_free'') None None None
       None =
     ([SourceRead FILE_PATH, Classify ''pH_free''], Inl TypeError)"
  by code_simp

text \<open>
  These are the only ways a tick of a session raises: after a successful read, with a
  selected column that the data frame has, on a text column, on a time column that the
  data frame does not have, or on a data frame without \<^verbatim>\<open>samp_num\<close>.
\<close>

lemma numeric_raises: "numeric s = Inl e \<Longrightarrow> e = TypeError"
  by (cases s) (auto split: if_splits)

lemma getitem_missing: "c \<notin> set (columns df) \<Longrightarrow> getitem df c = Inl (KeyError c)"
  by (auto simp: getitem_def columns_def map_of_eq_None_iff split: option.splits)

lemma and_then_Inl: "and_then m f = Inl e \<longleftrightarrow> m = Inl e \<or> (\<exists>x. m = Inr x \<and> f x = Inl e)"
  by (cases m) simp_all

lemma data_chart_raises:
  assumes "data_chart pd df tc sel cv = Inl e" and "sel \<in> set (columns df)"
  shows "e = TypeError \<or> (e = KeyError tc \<and> tc \<notin> set (columns df)) \<or>
         (e = ValueError \<and> ''samp_num'' \<notin> set (columns df))"
proof -
  from getitem_columns [OF assms(2)] obtain ys where ys: "getitem df sel = Inr ys" ..
  show ?thesis
  proof (cases "numeric ys")
    case (Inl e')
    then have "classify pd df sel = Inl TypeError"
      using ys numeric_raises [OF Inl] by (simp add: classify_def normal_mask_def)
    with assms(1) show ?thesis by (simp add: data_chart_def)
  next
    case (Inr vs)
    obtain msk where msk: "normal_mask pd df ys = Inr msk"
      using Inr by (auto simp: normal_mask_def Let_def)
    have c: "classify pd df sel = Inr (boolean_index df msk, boolean_index df (map Not msk))"
      using ys msk by (simp add: classify_def)
    show ?thesis
    proof (cases "tc \<in> set (columns df)")
      case True
      from getitem_columns [OF True] obtain xa where xa: "getitem df tc = Inr xa" ..
      show ?thesis
      proof (cases "''samp_num'' \<in> set (columns df)")
        case sn: True
        from data_chart_returns [OF ys Inr xa sn, of pd cv] assms(1) show ?thesis by auto
      next
        case sn: False
        have "data_traces df tc sel (boolean_index df msk) (boolean_index df (map Not msk)) =
                Inl ValueError"
          unfolding data_traces_def
          by (simp add: getitem_boolean_index [OF ys] getitem_boolean_index [OF xa] xa sn)
        then have "data_chart pd df tc sel cv = Inl ValueError"
          by (simp add: data_chart_def c)
        with assms(1) sn show ?thesis by simp
      qed
    next
      case False
      have "tc \<notin> set (columns (boolean_index df msk))"
        using False by (simp add: columns_boolean_index)
      then have "getitem (boolean_index df msk) tc = Inl (KeyError tc)"
        by (rule getitem_missing)
      then have "data_chart pd df tc sel cv = Inl (KeyError tc)"
        by (simp add: data_chart_def c data_traces_def)
      with assms(1) False show ?thesis by simp
    qed
  qed
qed

lemma tick_raises_only:
  assumes "reachable pd s" and "snd (tick pd fs now n sel relay_data s) = Inl e"
  shows "\<exists>evs df md m. read_csv_data pd fs FILE_PATH = (evs, Some (df, md)) \<and> sel = Some m \<and>
           m \<in> set (columns df) \<and>
           (e = TypeError \<or> (e = KeyError (time_col md) \<and> time_col md \<notin> set (columns df)) \<or>
            (e = ValueError \<and> ''samp_num'' \<notin> set (columns df)))"
proof (cases "fs FILE_PATH")
  case None
  with assms(2) show ?thesis by (simp add: tick_def update_graph_missing)
next
  case (Some f)
  show ?thesis
  proof (cases "unchanged f sel (s_last s) \<and> s_figure s \<noteq> None")
    case True
    then obtain fig where fig: "s_figure s = Some fig" and u: "unchanged f sel (s_last s)" by auto
    from u have "s_last s \<noteq> None" by (auto simp: unchanged_def split: option.splits)
    with reachable_cached_axes [OF assms(1)] fig have ax: "has_axes fig" by auto
    from assms(2) show ?thesis
      by (simp add: tick_def update_graph_reuse [where fs = fs and f = f, OF Some u fig]
          apply_view_cached_axes [OF ax])
  next
    case False
    then have nb: "\<not> unchanged f sel (s_last s) \<or> s_figure s = None" by auto
    obtain evs r where rd: "read_csv_data pd fs FILE_PATH = (evs, r)"
      by (cases "read_csv_data pd fs FILE_PATH")
    show ?thesis
    proof (cases r)
      case None
      with assms(2) rd show ?thesis
        by (simp add: tick_def update_graph_rebuild [where fs = fs and f = f, OF Some nb])
    next
      case dm: (Some dm)
      obtain df md where d: "dm = (df, md)" by (cases dm)
      let ?cv = "capture_view relay_data (s_view s)"
      from assms(2) rd dm d have b: "snd (build_figure pd df (time_col md) sel ?cv) = Inl e"
        by (simp add: tick_def update_graph_rebuild [where fs = fs and f = f, OF Some nb]
            and_then_Inl)
      then obtain m where m: "sel = Some m" "m \<in> set (columns df)"
        and dc: "data_chart pd df (time_col md) m ?cv = Inl e"
        by (auto simp: build_figure_def split: option.splits if_splits)
      from data_chart_raises [OF dc m(2)] rd dm d m show ?thesis by simp
    qed
  qed
qed

section \<open>The dropdown\<close>

lemma read_body_ph_cols:
  "read_body pd f = Inr (evs, Some (df, md)) \<Longrightarrow> ph_cols md \<noteq> [] \<and> ph_cols md = identify_ph_cols df"
  by (auto simp: read_body_def Let_def split: sum.splits prod.splits if_splits)

lemma read_csv_data_ph_cols:
  "read_csv_data pd fs p = (evs, Some (df, md)) \<Longrightarrow> ph_cols md \<noteq> [] \<and> ph_cols md = identify_ph_cols df"
  by (auto simp: read_csv_data_def split: option.splits sum.splits prod.splits dest: read_body_ph_cols)

lemma choose_value_spec:
  assumes "cols \<noteq> []"
  shows "\<exists>v. choose_value cur cols = Inr v \<and> v \<in> set cols \<and>
           (cur \<notin> Some ` set cols \<longrightarrow>
              v = (if ''ph_total'' \<in> set cols then ''ph_total''
                   else if ''pH_free'' \<in> set cols then ''pH_free'' else cols ! 0)) \<and>
           (cur \<in> Some ` set cols \<longrightarrow> cur = Some v)"
proof (cases cur)
  case None
  with assms show ?thesis
    by (cases cols) (auto simp: choose_value_def default_value_def)
next
  case (Some c)
  with assms show ?thesis
    by (cases cols) (auto simp: choose_value_def default_value_def)
qed

text \<open>
  When the dropdown callback reads the file again (the file has changed, or no options
  are cached yet) and the read succeeds, the value it returns is the current selection if
  that is one of the resolved pH columns; if there is no selection, or it is not among
  them, the value is \<^verbatim>\<open>ph_total\<close> if resolved, else \<^verbatim>\<open>pH_free\<close> if resolved, else the first
  resolved column. The value is always one of the resolved columns.
\<close>

lemma dropdown_default_value:
  assumes "fs FILE_PATH = Some f"
    and "last_modified_time g \<noteq> Some (mtime f) \<or> dropdown_options g = []"
    and "read_csv_data pd fs FILE_PATH = (evs, Some (df, md))"
  shows "\<exists>v. update_dropdown pd fs n cur g =
             (evs, Inr ((map (\<lambda>c. (c, c)) (ph_cols md), Some v),
                        \<lparr>last_modified_time = Some (mtime f),
                         dropdown_options = map (\<lambda>c. (c, c)) (ph_cols md),
                         dropdown_value = Some v\<rparr>)) \<and>
           v \<in> set (ph_cols md) \<and>
           (cur \<notin> Some ` set (ph_cols md) \<longrightarrow>
              v = (if ''ph_total'' \<in> set (ph_cols md) then ''ph_total''
                   else if ''pH_free'' \<in> set (ph_cols md) then ''pH_free'' else ph_cols md ! 0)) \<and>
           (cur \<in> Some ` set (ph_cols md) \<longrightarrow> cur = Some v)"
proof -
  have ne: "ph_cols md \<noteq> []" using read_csv_data_ph_cols [OF assms(3)] by blast
  from choose_value_spec [OF ne, of cur] obtain v where
    v: "choose_value cur (ph_cols md) = Inr v" "v \<in> set (ph_cols md)"
      "cur \<notin> Some ` set (ph_cols md) \<longrightarrow>
              v = (if ''ph_total'' \<in> set (ph_cols md) then ''ph_total''
                   else if ''pH_free'' \<in> set (ph_cols md) then ''pH_free'' else ph_cols md ! 0)"
      "cur \<in> Some ` set (ph_cols md) \<longrightarrow> cur = Some v"
    by blast
  have "update_dropdown pd fs n cur g =
             (evs, Inr ((map (\<lambda>c. (c, c)) (ph_cols md), Some v),
                        \<lparr>last_modified_time = Some (mtime f),
                         dropdown_options = map (\<lambda>c. (c, c)) (ph_cols md),
                         dropdown_value = Some v\<rparr>))"
    using assms v(1) by (auto simp: update_dropdown_def Let_def)
  with v show ?thesis by blast
qed

lemma dropdown_default_value_example:
  "one_file 100 df_timed FILE_PATH = Some example_file \<and>
   dropdown_options \<lparr>last_modified_time = None, dropdown_options = [], dropdown_value = None\<rparr> = [] \<and>
   read_csv_data example_pandas (one_file 100 df_timed) FILE_PATH =
     ([SourceRead FILE_PATH],
      Some (df_timed_read, \<lparr>time_col = ''pc_time'', ph_cols = [''pH_free'', ''ph_total'']\<rparr>)) \<and>
   update_dropdown example_pandas (one_file 100 df_timed) 0 None
       \<lparr>last_modified_time = None, dropdown_options = [], dropdown_value = None\<rparr> =
     ([SourceRead FILE_PATH],
      Inr (([(''pH_free'', ''pH_free''), (''ph_total'', ''ph_total'')], Some ''ph_total''),
           \<lparr>last_modified_time = Some 100,
            dropdown_options = [(''pH_free'', ''pH_free''), (''ph_total'', ''ph_total'')],
            dropdown_value = Some ''ph_total''\<rparr>)) \<and>
   update_dropdown example_pandas (one_file 100 df_timed) 0 (Some ''pH_free'')
       \<lparr>last_modified_time = None, dropdown_options = [], dropdown_value = None\<rparr> =
     ([SourceRead FILE_PATH],
      Inr (([(''pH_free'', ''pH_free''), (''ph_total'', ''ph_total'')], Some ''pH_free''),
           \<lparr>last_modified_time = Some 100,
            dropdown_options = [(''pH_free'', ''pH_free''), (''ph_total'', ''ph_total'')],
            dropdown_value = Some ''pH_free''\<rparr>))"
proof -
  let ?g = "\<lparr>last_modified_time = None, dropdown_options = [], dropdown_value = None\<rparr>"
  let ?md = "\<lparr>time_col = ''pc_time'', ph_cols = [''pH_free'', ''ph_total'']\<rparr>"
  have f: "one_file 100 df_timed FILE_PATH = Some example_file"
    by (simp add: one_file_def example_file_def)
  have o: "dropdown_options ?g = []" by simp
  have rd: "read_csv_data example_pandas (one_file 100 df_timed) FILE_PATH =
     ([SourceRead FILE_PATH], Some (df_timed_read, ?md))"
    by code_simp
  have m: "mtime example_file = 100" by (simp add: example_file_def)
  note d = dropdown_default_value [where fs = "one_file 100 df_timed" and f = example_file,
      OF f disjI2 [OF o] rd, of 0]
  have a: "update_dropdown example_pandas (one_file 100 df_timed) 0 None ?g =
     ([SourceRead FILE_PATH],
      Inr (([(''pH_free'', ''pH_free''), (''ph_total'', ''ph_total'')], Some ''ph_total''),
           \<lparr>last_modified_time = Some 100,
            dropdown_options = [(''pH_free'', ''pH_free''), (''ph_total'', ''ph_total'')],
            dropdown_value = Some ''ph_total''\<rparr>))"
    using d [of None] by (auto simp: m)
  have b: "update_dropdown example_pandas (one_file 100 df_timed) 0 (Some ''pH_free'') ?g =
     ([SourceRead FILE_PATH],
      Inr (([(''pH_free'', ''pH_free''), (''ph_total'', ''ph_total'')], Some ''pH_free''),
           \<lparr>last_modified_time = Some 100,
            dropdown_options = [(''pH_free'', ''pH_free''), (''ph_total'', ''ph_total'')],
            dropdown_value = Some ''pH_free''\<rparr>))"
    using d [of "Some ''pH_free''"] by (auto simp: m)
  show ?thesis
    by (intro conjI f o rd a b)
qed

text \<open>
  C10, at an input where the source does not keep the current selection. The first run
  of the callback, with nothing selected, selects \<^verbatim>\<open>ph_total\<close> and caches it. The user
  then selects \<^verbatim>\<open>pH_free\<close>, which is a resolved pH column. On the next run the file has
  not changed, the file is not read, and the callback returns the cached \<^verbatim>\<open>ph_total\<close> in
  place of the current selection.
\<close>

theorem cached_value_replaces_selection:
  "update_dropdown example_pandas (one_file 100 df_timed) 0 None initial_globals =
     ([SourceRead FILE_PATH],
      Inr (([(''pH_free'', ''pH_free''), (''ph_total'', ''ph_total'')], Some ''ph_total''),
           cached_globals)) \<and>
   update_dropdown example_pandas (one_file 100 df_timed) 1 (Some ''pH_free'') cached_globals =
     ([],
      Inr (([(''pH_free'', ''pH_free''), (''ph_total'', ''ph_total'')], Some ''ph_total''),
           cached_globals))"
  by code_simp

end
